theory Spec2Isabelle
  imports Complex_Main "HOL-Library.Sublist"
begin

section \<open>Python values\<close>

text \<open>
  The proxy (\<^verbatim>\<open>src/mcp/vap_mcp_proxy.py\<close>) works on the values that \<^verbatim>\<open>json.loads\<close>
  produces: \<^verbatim>\<open>None\<close>, booleans, integers, floats, strings, lists and dictionaries.
  A dictionary is an association list read with \<open>map_of\<close>. A finite float is the
  rational number it denotes (the non-finite floats are not modelled); a float literal of
  the source is its decimal value. A string is the list of the bytes of its UTF-8 form.
\<close>

datatype json =
    JNull
  | JBool bool
  | JInt int
  | JFloat rat
  | JStr string
  | JArr "json list"
  | JObj "(string \<times> json) list"

text \<open>
  The exceptions the proxy's own code can raise on such values: an attribute that the
  object does not have (\<^verbatim>\<open>.get\<close>, \<^verbatim>\<open>.startswith\<close>), an operator that
  the object does not support (\<^verbatim>\<open>in\<close>, subscription, hashing) and a missing key.
  Each carries the offending object and the name of the attribute or operator. The
  exceptions that \<^verbatim>\<open>json.loads\<close> raises on a line carry their message:
  \<^verbatim>\<open>json.JSONDecodeError\<close> for text that is not JSON, \<^verbatim>\<open>RecursionError\<close> for
  text nested too deeply and, as a plain \<^verbatim>\<open>ValueError\<close>, the refusal of an integer
  literal with too many digits. \<^verbatim>\<open>JSONDecodeError\<close> is a subclass of
  \<^verbatim>\<open>ValueError\<close>; the constructor \<open>ValueError\<close> stands for the other instances.
\<close>

datatype exn =
    AttributeError json string
  | TypeError json string
  | KeyError string
  | JSONDecodeError string
  | ValueError string
  | RecursionError string

text \<open>\<^verbatim>\<open>bool(v)\<close>, as \<^verbatim>\<open>if v\<close>, \<^verbatim>\<open>not v\<close> and \<^verbatim>\<open>a or b\<close> use it.\<close>

fun truthy :: "json \<Rightarrow> bool" where
  "truthy JNull = False"
| "truthy (JBool b) = b"
| "truthy (JInt i) = (i \<noteq> 0)"
| "truthy (JFloat r) = (r \<noteq> 0)"
| "truthy (JStr s) = (s \<noteq> [])"
| "truthy (JArr xs) = (xs \<noteq> [])"
| "truthy (JObj d) = (d \<noteq> [])"

definition py_or :: "json \<Rightarrow> json \<Rightarrow> json" where
  "py_or a b = (if truthy a then a else b)"

text \<open>\<^verbatim>\<open>v.get(k, dflt)\<close>: only a dictionary has the method.\<close>

definition dict_get :: "(string \<times> json) list \<Rightarrow> string \<Rightarrow> json \<Rightarrow> json" where
  "dict_get d k dflt = (case map_of d k of None \<Rightarrow> dflt | Some v \<Rightarrow> v)"

fun py_get :: "json \<Rightarrow> string \<Rightarrow> json \<Rightarrow> exn + json" where
  "py_get (JObj d) k dflt = Inr (dict_get d k dflt)"
| "py_get v k dflt = Inl (AttributeError v ''get'')"

text \<open>
  \<^verbatim>\<open>k in v\<close> for a string \<open>k\<close>: a key of a dictionary, an element of a list, a
  substring of a string; the other values are not containers.
\<close>

fun py_in :: "string \<Rightarrow> json \<Rightarrow> exn + bool" where
  "py_in k (JObj d) = Inr (k \<in> set (map fst d))"
| "py_in k (JArr xs) = Inr (JStr k \<in> set xs)"
| "py_in k (JStr s) = Inr (sublist k s)"
| "py_in k v = Inl (TypeError v ''in'')"

text \<open>\<^verbatim>\<open>v[k]\<close> for a string \<open>k\<close>.\<close>

fun py_item :: "json \<Rightarrow> string \<Rightarrow> exn + json" where
  "py_item (JObj d) k = (case map_of d k of None \<Rightarrow> Inl (KeyError k) | Some v \<Rightarrow> Inr v)"
| "py_item v k = Inl (TypeError v ''[]'')"

text \<open>
  \<^verbatim>\<open>v == n\<close> for an integer literal \<open>n\<close>: numbers compare by value, and
  \<^verbatim>\<open>True\<close> and \<^verbatim>\<open>False\<close> are the numbers 1 and 0.
\<close>

fun py_eq_int :: "json \<Rightarrow> int \<Rightarrow> bool" where
  "py_eq_int (JInt i) n = (i = n)"
| "py_eq_int (JFloat r) n = (r = of_int n)"
| "py_eq_int (JBool b) n = ((if b then 1 else 0) = n)"
| "py_eq_int v n = False"

definition py_in_ints :: "json \<Rightarrow> int list \<Rightarrow> bool" where
  "py_in_ints v ns = list_ex (py_eq_int v) ns"

definition py_in_strs :: "json \<Rightarrow> string list \<Rightarrow> bool" where
  "py_in_strs v ss = list_ex (\<lambda>s. v = JStr s) ss"

section \<open>The library and the remote service\<close>

text \<open>
  One HTTP call of the proxy: a POST to the tool-protocol base (\<^verbatim>\<open>make_request\<close>), a
  POST to the task base (\<^verbatim>\<open>make_v3_request\<close>) or a GET from the task base
  (\<^verbatim>\<open>make_v3_get_request\<close>), with the endpoint path and the JSON body sent.
\<close>

datatype call =
    Post_mcp string json
  | Post_v3 string json
  | Get_v3 string

text \<open>
  A failed call is the exception \<open>e\<close> that the HTTP library raised: \<open>failure_str\<close> is
  \<^verbatim>\<open>str(e)\<close>, \<open>failure_response\<close> is \<^verbatim>\<open>e.response\<close> when the exception has one
  (a non-2xx status), with the outcome of \<^verbatim>\<open>e.response.json()\<close> (\<open>None\<close> when that
  raises) and \<^verbatim>\<open>e.response.text\<close>.
\<close>

record failed_response =
  response_json :: "json option"
  response_text :: string

record http_failure =
  failure_str :: string
  failure_response :: "failed_response option"

text \<open>
  What the proxy does not define itself is a parameter: the remote service (the answer to
  the \<open>n\<close>-th call of a run, a failure or the decoded body), \<^verbatim>\<open>json.loads\<close>
  (the decoded value or the exception raised), \<^verbatim>\<open>json.dumps\<close>, \<^verbatim>\<open>str.strip\<close>,
  \<^verbatim>\<open>repr\<close> of a value and \<^verbatim>\<open>str\<close> of an exception.
\<close>

record env =
  respond :: "nat \<Rightarrow> call \<Rightarrow> http_failure + json"
  json_loads :: "string \<Rightarrow> exn + json"
  json_dumps :: "json \<Rightarrow> string"
  str_strip :: "string \<Rightarrow> string"
  py_repr :: "json \<Rightarrow> string"
  exn_str :: "exn \<Rightarrow> string"

text \<open>\<^verbatim>\<open>str(v)\<close>, as an f-string renders \<open>v\<close>: a string is itself, any other value its \<^verbatim>\<open>repr\<close>.\<close>

definition py_str :: "env \<Rightarrow> json \<Rightarrow> string" where
  "py_str env v = (case v of JStr s \<Rightarrow> s | _ \<Rightarrow> py_repr env v)"

text \<open>
  The state of a run: the HTTP calls attempted so far and the lines written to standard
  output, both oldest first. Logging goes to standard error and is left out.
\<close>

record world =
  calls :: "call list"
  stdout :: "string list"

definition attempt :: "env \<Rightarrow> call \<Rightarrow> world \<Rightarrow> (http_failure + json) \<times> world" where
  "attempt env c w = (respond env (length (calls w)) c, w\<lparr>calls := calls w @ [c]\<rparr>)"

section \<open>HTTP client\<close>

definition make_request :: "env \<Rightarrow> string \<Rightarrow> json \<Rightarrow> world \<Rightarrow> json \<times> world" where
  "make_request env endpoint payload w =
     (case attempt env (Post_mcp endpoint (py_or payload (JObj []))) w of
        (Inr body, w') \<Rightarrow> (body, w')
      | (Inl e, w') \<Rightarrow> (JObj [(''error'', JStr (failure_str e))], w'))"

text \<open>
  \<^verbatim>\<open>s[:n]\<close>, the first \<open>n\<close> characters of a string. A character is one byte that is
  not a continuation byte (\<open>0x80\<close> to \<open>0xBF\<close>) together with the continuation bytes
  that follow it.
\<close>

definition is_continuation :: "char \<Rightarrow> bool" where
  "is_continuation c = (128 \<le> (of_char c :: nat) \<and> (of_char c :: nat) < 192)"

fun py_take :: "nat \<Rightarrow> string \<Rightarrow> string" where
  "py_take n [] = []"
| "py_take n (c # cs) =
     (if is_continuation c then c # py_take n cs
      else if n = 0 then []
      else c # py_take (n - 1) cs)"

text \<open>The error detail that \<^verbatim>\<open>make_v3_request\<close> extracts in its \<^verbatim>\<open>except\<close> branch.\<close>

definition v3_error_detail :: "env \<Rightarrow> http_failure \<Rightarrow> json" where
  "v3_error_detail env e =
     (case failure_response e of
        None \<Rightarrow> JStr (failure_str e)
      | Some r \<Rightarrow>
          (case response_json r of
             None \<Rightarrow>
               JStr (if response_text r \<noteq> [] then py_take 500 (response_text r)
                     else failure_str e)
           | Some (JObj error_body) \<Rightarrow>
               (case (case map_of error_body ''detail'' of None \<Rightarrow> JObj [] | Some d \<Rightarrow> d) of
                  JObj detail \<Rightarrow>
                    (case map_of detail ''message'' of
                       None \<Rightarrow> JStr (py_str env (JObj detail))
                     | Some m \<Rightarrow> m)
                | JStr detail \<Rightarrow> JStr detail
                | _ \<Rightarrow> JStr (py_str env (JObj error_body)))
           | Some _ \<Rightarrow> JStr (failure_str e)))"

definition make_v3_request :: "env \<Rightarrow> string \<Rightarrow> json \<Rightarrow> world \<Rightarrow> json \<times> world" where
  "make_v3_request env endpoint payload w =
     (case attempt env (Post_v3 endpoint (py_or payload (JObj []))) w of
        (Inr body, w') \<Rightarrow> (body, w')
      | (Inl e, w') \<Rightarrow> (JObj [(''error'', v3_error_detail env e)], w'))"

definition make_v3_get_request :: "env \<Rightarrow> string \<Rightarrow> world \<Rightarrow> json \<times> world" where
  "make_v3_get_request env endpoint w =
     (case attempt env (Get_v3 endpoint) w of
        (Inr body, w') \<Rightarrow> (body, w')
      | (Inl e, w') \<Rightarrow> (JObj [(''error'', JStr (failure_str e))], w'))"

section \<open>Configuration\<close>

text \<open>The two price tables, keyed by duration.\<close>

definition VIDEO_COSTS_WITH_AUDIO :: "(int \<times> rat) list" where
  "VIDEO_COSTS_WITH_AUDIO = [(4, 12 / 5), (6, 18 / 5), (8, 24 / 5)]"

definition VIDEO_COSTS_NO_AUDIO :: "(int \<times> rat) list" where
  "VIDEO_COSTS_NO_AUDIO = [(4, 6 / 5), (6, 9 / 5), (8, 12 / 5)]"

text \<open>
  \<^verbatim>\<open>cost_table.get(duration, dflt)\<close>: a dictionary finds a key by equality, so the
  float 4.0 finds the key 4. The source reads a table only after the duration has been
  coerced to a number, which is hashable.
\<close>

definition table_get :: "(int \<times> rat) list \<Rightarrow> json \<Rightarrow> rat \<Rightarrow> rat" where
  "table_get t k dflt =
     (case find (\<lambda>(n, c). py_eq_int k n) t of None \<Rightarrow> dflt | Some (n, c) \<Rightarrow> c)"

section \<open>MCP method handlers\<close>

text \<open>
  A handler takes the parameters and the state and returns the state after it together
  with its result or the exception it raised.
\<close>

type_synonym handler = "env \<Rightarrow> json \<Rightarrow> world \<Rightarrow> (exn + json) \<times> world"

definition handle_initialize :: handler where
  "handle_initialize env params w =
     (case py_get params ''protocolVersion'' JNull of
        Inl e \<Rightarrow> (Inl e, w)
      | Inr protocolVersion \<Rightarrow>
     (case py_get params ''capabilities'' (JObj []) of
        Inl e \<Rightarrow> (Inl e, w)
      | Inr capabilities \<Rightarrow>
     (case py_get params ''clientInfo'' (JObj []) of
        Inl e \<Rightarrow> (Inl e, w)
      | Inr clientInfo \<Rightarrow>
          (case make_request env ''/initialize''
                  (JObj [(''protocolVersion'', protocolVersion),
                         (''capabilities'', capabilities),
                         (''clientInfo'', clientInfo)]) w of
             (response, w') \<Rightarrow> (Inr response, w')))))"

definition handle_tools_list :: handler where
  "handle_tools_list env params w =
     (case make_request env ''/tools/list'' (JObj []) w of
        (response, w') \<Rightarrow> (Inr response, w'))"

text \<open>The result that the tool handlers return for a failed tool call.\<close>

definition text_content :: "string \<Rightarrow> json" where
  "text_content t = JArr [JObj [(''type'', JStr ''text''), (''text'', JStr t)]]"

definition error_result :: "string \<Rightarrow> json" where
  "error_result t = JObj [(''isError'', JBool True), (''content'', text_content t)]"

definition text_result :: "string \<Rightarrow> json" where
  "text_result t = JObj [(''content'', text_content t)]"

text \<open>The three coercions (lines 240 to 250 and 298 to 300 of the source).\<close>

definition coerce_duration :: "json \<Rightarrow> json" where
  "coerce_duration duration = (if \<not> py_in_ints duration [4, 6, 8] then JInt 8 else duration)"

definition coerce_aspect_ratio :: "json \<Rightarrow> json" where
  "coerce_aspect_ratio aspect_ratio =
     (if \<not> py_in_strs aspect_ratio [''16:9'', ''9:16''] then JStr ''16:9'' else aspect_ratio)"

definition coerce_resolution :: "json \<Rightarrow> json" where
  "coerce_resolution resolution =
     (if \<not> py_in_strs resolution [''720p'', ''1080p''] then JStr ''720p'' else resolution)"

text \<open>
  The parameter set of the task that \<^verbatim>\<open>_handle_generate_video\<close> creates (lines 255
  to 263), from the values already coerced.
\<close>

definition video_params :: "json \<Rightarrow> json \<Rightarrow> json \<Rightarrow> json \<Rightarrow> json \<Rightarrow> json \<Rightarrow> json" where
  "video_params prompt duration aspect_ratio generate_audio resolution negative_prompt =
     JObj ([(''prompt'', prompt),
            (''duration'', duration),
            (''aspect_ratio'', aspect_ratio),
            (''generate_audio'', generate_audio),
            (''resolution'', resolution)]
           @ (if truthy negative_prompt then [(''negative_prompt'', negative_prompt)] else []))"

definition nl :: string where
  "nl = [CHR 0x0A]"

text \<open>The text of a created video task (line 284).\<close>

definition video_created_text ::
  "env \<Rightarrow> json \<Rightarrow> json \<Rightarrow> json \<Rightarrow> json \<Rightarrow> json \<Rightarrow> json \<Rightarrow> string" where
  "video_created_text env task_id duration aspect_ratio resolution generate_audio estimated_cost =
     ''Video generation task created (Veo 3.1)!'' @ nl @ nl
     @ ''Task ID: '' @ py_str env task_id @ nl
     @ ''Duration: '' @ py_str env duration @ '' seconds'' @ nl
     @ ''Aspect Ratio: '' @ py_str env aspect_ratio @ nl
     @ ''Resolution: '' @ py_str env resolution @ nl
     @ ''Audio: '' @ (if truthy generate_audio then ''Yes'' else ''No'') @ nl
     @ ''Estimated Cost: $'' @ py_str env estimated_cost @ nl @ nl
     @ ''Use get_task with this task_id to check status and get the video URL when complete.''"

text \<open>
  \<^verbatim>\<open>_handle_generate_video\<close> (an Isabelle name cannot start with an underscore).
  What the handler makes of the answer to its task-creation request (lines 270 to 286) is
  \<open>video_reply\<close>.
\<close>

definition video_reply :: "env \<Rightarrow> json \<Rightarrow> json \<Rightarrow> json \<Rightarrow> json \<Rightarrow> json \<Rightarrow> exn + json" where
  "video_reply env response duration aspect_ratio resolution generate_audio =
     (case py_in ''error'' response of
        Inl e \<Rightarrow> Inl e
      | Inr True \<Rightarrow>
          (case py_item response ''error'' of
             Inl e \<Rightarrow> Inl e
           | Inr err \<Rightarrow> Inr (error_result (''Error: '' @ py_str env err)))
      | Inr False \<Rightarrow>
          (case py_get response ''task_id'' (JStr ''unknown'') of
             Inl e \<Rightarrow> Inl e
           | Inr task_id \<Rightarrow>
               let cost_table = (if truthy generate_audio
                                 then VIDEO_COSTS_WITH_AUDIO else VIDEO_COSTS_NO_AUDIO)
               in (case py_get response ''estimated_cost''
                          (JFloat (table_get cost_table duration (24 / 5))) of
                     Inl e \<Rightarrow> Inl e
                   | Inr estimated_cost \<Rightarrow>
                       Inr (text_result
                              (video_created_text env task_id duration aspect_ratio
                                 resolution generate_audio estimated_cost)))))"

definition handle_generate_video :: handler where
  "handle_generate_video env arguments w =
     (case py_get arguments ''prompt'' (JStr []) of
        Inl e \<Rightarrow> (Inl e, w)
      | Inr prompt \<Rightarrow>
     (case py_get arguments ''duration'' (JInt 8) of
        Inl e \<Rightarrow> (Inl e, w)
      | Inr duration0 \<Rightarrow>
     (case py_get arguments ''aspect_ratio'' (JStr ''16:9'') of
        Inl e \<Rightarrow> (Inl e, w)
      | Inr aspect_ratio0 \<Rightarrow>
     (case py_get arguments ''generate_audio'' (JBool True) of
        Inl e \<Rightarrow> (Inl e, w)
      | Inr generate_audio \<Rightarrow>
     (case py_get arguments ''resolution'' (JStr ''720p'') of
        Inl e \<Rightarrow> (Inl e, w)
      | Inr resolution0 \<Rightarrow>
     (case py_get arguments ''negative_prompt'' (JStr []) of
        Inl e \<Rightarrow> (Inl e, w)
      | Inr negative_prompt \<Rightarrow>
          if \<not> truthy prompt then (Inr (error_result ''Error: prompt is required''), w)
          else
            let duration = coerce_duration duration0;
                aspect_ratio = coerce_aspect_ratio aspect_ratio0;
                resolution = coerce_resolution resolution0;
                params = video_params prompt duration aspect_ratio generate_audio
                           resolution negative_prompt
            in (case make_v3_request env ''/v3/tasks''
                       (JObj [(''type'', JStr ''video''), (''params'', params)]) w of
                  (response, w') \<Rightarrow>
                    (video_reply env response duration aspect_ratio resolution
                       generate_audio, w'))))))))"

text \<open>
  \<^verbatim>\<open>_handle_estimate_video_cost\<close>. The cost that the source computes in lines 295
  to 303 is \<open>estimate_cost_value\<close>; the text returned does not use it.
\<close>

definition estimate_cost_value :: "json \<Rightarrow> json \<Rightarrow> rat" where
  "estimate_cost_value duration0 generate_audio =
     (let duration = coerce_duration duration0;
          cost_table = (if truthy generate_audio
                        then VIDEO_COSTS_WITH_AUDIO else VIDEO_COSTS_NO_AUDIO)
      in table_get cost_table duration (24 / 5))"

definition estimate_text :: string where
  "estimate_text =
     ''Video Generation Cost: $1.96 USD (fixed price)'' @ nl @ nl
     @ ''Provider: Veo 3.1'' @ nl @ ''Requires: Tier 2+''"

definition handle_estimate_video_cost :: handler where
  "handle_estimate_video_cost env arguments w =
     (case py_get arguments ''duration'' (JInt 8) of
        Inl e \<Rightarrow> (Inl e, w)
      | Inr duration0 \<Rightarrow>
     (case py_get arguments ''generate_audio'' (JBool True) of
        Inl e \<Rightarrow> (Inl e, w)
      | Inr generate_audio \<Rightarrow>
          let cost = estimate_cost_value duration0 generate_audio
          in (Inr (text_result estimate_text), w)))"

text \<open>
  \<^verbatim>\<open>_handle_get_task\<close>. The URLs read from the task's result (lines 344 to 355):
  the video URL, the image URL and the audio URL, in this order.
\<close>

definition extract_urls :: "json \<Rightarrow> exn + (json \<times> json \<times> json)" where
  "extract_urls result =
     (case py_get result ''video_url'' JNull of
        Inl e \<Rightarrow> Inl e
      | Inr v \<Rightarrow>
     (case (if truthy v then Inr v else py_get result ''output_url'' JNull) of
        Inl e \<Rightarrow> Inl e
      | Inr video_url \<Rightarrow>
     (case py_get result ''image_url'' JNull of
        Inl e \<Rightarrow> Inl e
      | Inr i \<Rightarrow>
     (case (if truthy i then Inr i else py_get result ''output_url'' JNull) of
        Inl e \<Rightarrow> Inl e
      | Inr image_url \<Rightarrow>
     (case py_get result ''items'' (JArr []) of
        Inl e \<Rightarrow> Inl e
      | Inr items \<Rightarrow>
          (case items of
             JArr (item # rest) \<Rightarrow>
               (case py_get item ''audio_url'' JNull of
                  Inl e \<Rightarrow> Inl e
                | Inr audio_url \<Rightarrow>
                    if \<not> truthy image_url
                    then (case py_get item ''image_url'' JNull of
                            Inl e \<Rightarrow> Inl e
                          | Inr image_url' \<Rightarrow> Inr (video_url, image_url', audio_url))
                    else Inr (video_url, image_url, audio_url))
           | _ \<Rightarrow> Inr (video_url, image_url, JNull)))))))"

text \<open>The marks that open the trailing lines, as the bytes of their UTF-8 form.\<close>

definition audio_mark :: string where
  "audio_mark = [CHR 0xF0, CHR 0x9F, CHR 0x8E, CHR 0xB5]"

definition video_mark :: string where
  "video_mark = [CHR 0xF0, CHR 0x9F, CHR 0x8E, CHR 0xAC]"

definition image_mark :: string where
  "image_mark = [CHR 0xF0, CHR 0x9F, CHR 0x96, CHR 0xBC, CHR 0xEF, CHR 0xB8, CHR 0x8F]"

definition error_mark :: string where
  "error_mark = [CHR 0xE2, CHR 0x9D, CHR 0x8C]"

definition wait_mark :: string where
  "wait_mark = [CHR 0xE2, CHR 0x8F, CHR 0xB3]"

text \<open>The lines of the summary (lines 358 to 378).\<close>

definition task_lines ::
  "env \<Rightarrow> json \<Rightarrow> json \<Rightarrow> json \<Rightarrow> json \<Rightarrow> json \<Rightarrow> json \<Rightarrow> json \<Rightarrow> json \<Rightarrow> json \<Rightarrow> string list" where
  "task_lines env task_id task_type status estimated_cost actual_cost error_message
       video_url image_url audio_url =
     [''Task: '' @ py_str env task_id,
      ''Type: '' @ py_str env task_type,
      ''Status: '' @ py_str env status,
      ''Estimated Cost: $'' @ py_str env estimated_cost]
     @ (if truthy actual_cost \<and> actual_cost \<noteq> JStr ''N/A''
        then [''Actual Cost: $'' @ py_str env actual_cost] else [])
     @ (if status = JStr ''completed'' then
          (if truthy audio_url then [nl @ audio_mark @ '' Audio URL: '' @ py_str env audio_url]
           else if truthy video_url then [nl @ video_mark @ '' Video URL: '' @ py_str env video_url]
           else if truthy image_url then [nl @ image_mark @ '' Image URL: '' @ py_str env image_url]
           else [])
        else if status = JStr ''failed'' \<and> truthy error_message then
          [nl @ error_mark @ '' Error: '' @ py_str env error_message]
        else if py_in_strs status [''pending'', ''queued'', ''executing''] then
          [nl @ wait_mark @ '' Task is still '' @ py_str env status @ ''. Check again shortly.'']
        else [])"

text \<open>\<^verbatim>\<open>sep.join(lines)\<close>.\<close>

fun join :: "string \<Rightarrow> string list \<Rightarrow> string" where
  "join sep [] = []"
| "join sep [l] = l"
| "join sep (l # ls) = l @ sep @ join sep ls"

text \<open>The summary of a fetched task document (lines 336 to 383).\<close>

definition task_summary :: "env \<Rightarrow> json \<Rightarrow> json \<Rightarrow> exn + string" where
  "task_summary env task_id response =
     (case py_get response ''status'' (JStr ''unknown'') of
        Inl e \<Rightarrow> Inl e
      | Inr status \<Rightarrow>
     (case py_get response ''type'' (JStr ''unknown'') of
        Inl e \<Rightarrow> Inl e
      | Inr task_type \<Rightarrow>
     (case py_get response ''estimated_cost'' (JStr ''N/A'') of
        Inl e \<Rightarrow> Inl e
      | Inr estimated_cost \<Rightarrow>
     (case py_get response ''actual_cost'' (JStr ''N/A'') of
        Inl e \<Rightarrow> Inl e
      | Inr actual_cost \<Rightarrow>
     (case py_get response ''error_message'' JNull of
        Inl e \<Rightarrow> Inl e
      | Inr error_message \<Rightarrow>
     (case py_get response ''result'' (JObj []) of
        Inl e \<Rightarrow> Inl e
      | Inr r \<Rightarrow>
          (case extract_urls (py_or r (JObj [])) of
             Inl e \<Rightarrow> Inl e
           | Inr (video_url, image_url, audio_url) \<Rightarrow>
               Inr (join nl (task_lines env task_id task_type status estimated_cost
                               actual_cost error_message video_url image_url audio_url)))))))))"

text \<open>What the handler makes of the fetched document (lines 330 to 385).\<close>

definition task_reply :: "env \<Rightarrow> json \<Rightarrow> json \<Rightarrow> exn + json" where
  "task_reply env task_id response =
     (case py_in ''error'' response of
        Inl e \<Rightarrow> Inl e
      | Inr True \<Rightarrow>
          (case py_item response ''error'' of
             Inl e \<Rightarrow> Inl e
           | Inr err \<Rightarrow> Inr (error_result (''Error: '' @ py_str env err)))
      | Inr False \<Rightarrow>
          (case task_summary env task_id response of
             Inl e \<Rightarrow> Inl e
           | Inr t \<Rightarrow> Inr (text_result t)))"

definition handle_get_task :: handler where
  "handle_get_task env arguments w =
     (case py_get arguments ''task_id'' (JStr []) of
        Inl e \<Rightarrow> (Inl e, w)
      | Inr task_id \<Rightarrow>
          if \<not> truthy task_id then (Inr (error_result ''Error: task_id is required''), w)
          else
            (case make_v3_get_request env (''/v3/tasks/'' @ py_str env task_id) w of
               (response, w') \<Rightarrow> (task_reply env task_id response, w')))"

definition handle_tools_call :: handler where
  "handle_tools_call env params w =
     (case py_get params ''name'' (JStr []) of
        Inl e \<Rightarrow> (Inl e, w)
      | Inr tool_name \<Rightarrow>
     (case py_get params ''arguments'' (JObj []) of
        Inl e \<Rightarrow> (Inl e, w)
      | Inr arguments \<Rightarrow>
          if tool_name = JStr ''generate_video'' then handle_generate_video env arguments w
          else if tool_name = JStr ''estimate_video_cost''
          then handle_estimate_video_cost env arguments w
          else if tool_name = JStr ''get_task'' then handle_get_task env arguments w
          else
            (case make_request env ''/tools/call''
                    (JObj [(''name'', tool_name), (''arguments'', arguments)]) w of
               (response, w') \<Rightarrow> (Inr response, w'))))"

definition handle_resources_list :: handler where
  "handle_resources_list env params w =
     (case make_request env ''/resources/list'' (JObj []) w of
        (response, w') \<Rightarrow> (Inr response, w'))"

definition handle_resources_read :: handler where
  "handle_resources_read env params w =
     (case py_get params ''uri'' JNull of
        Inl e \<Rightarrow> (Inl e, w)
      | Inr uri \<Rightarrow>
          (case make_request env ''/resources/read''
                  (JObj [(''params'', JObj [(''uri'', uri)])]) w of
             (response, w') \<Rightarrow> (Inr response, w')))"

definition METHOD_HANDLERS :: "(string \<times> handler) list" where
  "METHOD_HANDLERS =
     [(''initialize'', handle_initialize),
      (''tools/list'', handle_tools_list),
      (''tools/call'', handle_tools_call),
      (''resources/list'', handle_resources_list),
      (''resources/read'', handle_resources_read)]"

text \<open>
  \<^verbatim>\<open>METHOD_HANDLERS.get(method)\<close>: the keys are strings; a list and a dictionary
  cannot be hashed; any other value is simply not a key.
\<close>

fun lookup_handler :: "json \<Rightarrow> exn + handler option" where
  "lookup_handler (JStr m) = Inr (map_of METHOD_HANDLERS m)"
| "lookup_handler (JArr xs) = Inl (TypeError (JArr xs) ''hash'')"
| "lookup_handler (JObj d) = Inl (TypeError (JObj d) ''hash'')"
| "lookup_handler v = Inr None"

section \<open>JSON-RPC protocol\<close>

definition create_response :: "json \<Rightarrow> json \<Rightarrow> json" where
  "create_response request_id result =
     JObj [(''jsonrpc'', JStr ''2.0''), (''id'', request_id), (''result'', result)]"

definition create_error :: "json \<Rightarrow> int \<Rightarrow> string \<Rightarrow> json" where
  "create_error request_id code message =
     JObj [(''jsonrpc'', JStr ''2.0''), (''id'', request_id),
           (''error'', JObj [(''code'', JInt code), (''message'', JStr message)])]"

text \<open>
  What \<^verbatim>\<open>process_request\<close> makes of a handler's result (lines 496 to 500); an
  exception raised there is caught like one of the handler (lines 502 to 504).
\<close>

definition wrap_result :: "env \<Rightarrow> json \<Rightarrow> json \<Rightarrow> json" where
  "wrap_result env request_id result =
     (case py_in ''error'' result of
        Inl e \<Rightarrow> create_error request_id (- 32000) (exn_str env e)
      | Inr False \<Rightarrow> create_response request_id result
      | Inr True \<Rightarrow>
          (case py_item result ''error'' of
             Inl e \<Rightarrow> create_error request_id (- 32000) (exn_str env e)
           | Inr (JStr message) \<Rightarrow> create_error request_id (- 32000) message
           | Inr _ \<Rightarrow> create_response request_id result))"

text \<open>
  \<^verbatim>\<open>process_request\<close>: \<open>Inr None\<close> is the return value \<^verbatim>\<open>None\<close>, \<open>Inr (Some r)\<close>
  the response \<open>r\<close>, and \<open>Inl e\<close> an exception that leaves the function.
\<close>

definition process_request :: "env \<Rightarrow> json \<Rightarrow> world \<Rightarrow> (exn + json option) \<times> world" where
  "process_request env request w =
     (case py_get request ''id'' JNull of
        Inl e \<Rightarrow> (Inl e, w)
      | Inr request_id \<Rightarrow>
     (case py_get request ''method'' (JStr []) of
        Inl e \<Rightarrow> (Inl e, w)
      | Inr method \<Rightarrow>
     (case py_get request ''params'' JNull of
        Inl e \<Rightarrow> (Inl e, w)
      | Inr p \<Rightarrow>
          let params = py_or p (JObj []);
              is_notification = (request_id = JNull)
          in if is_notification then
               (case method of
                  JStr m \<Rightarrow> (Inr None, w)
                | _ \<Rightarrow> (Inl (AttributeError method ''startswith''), w))
             else
               (case lookup_handler method of
                  Inl e \<Rightarrow> (Inl e, w)
                | Inr None \<Rightarrow>
                    (Inr (Some (create_error request_id (- 32601)
                                  (''Method not found: '' @ py_str env method))), w)
                | Inr (Some handler) \<Rightarrow>
                    (case handler env params w of
                       (Inl e, w') \<Rightarrow>
                         (Inr (Some (create_error request_id (- 32000) (exn_str env e))), w')
                     | (Inr result, w') \<Rightarrow>
                         (Inr (Some (wrap_result env request_id result)), w'))))))"

section \<open>The line transport\<close>

text \<open>
  \<^verbatim>\<open>run_stdio\<close> on the lines that standard input delivers: \<open>None\<close> when the loop
  reaches the end of the input, \<open>Some e\<close> when the exception \<open>e\<close> ends it. The
  \<^verbatim>\<open>except\<close> clause of line 619 catches \<^verbatim>\<open>json.JSONDecodeError\<close> only; any other
  exception of the decoder leaves the loop, as an exception of \<^verbatim>\<open>process_request\<close>
  does.
\<close>

definition write_line :: "string \<Rightarrow> world \<Rightarrow> world" where
  "write_line l w = w\<lparr>stdout := stdout w @ [l]\<rparr>"

fun run_stdio :: "env \<Rightarrow> string list \<Rightarrow> world \<Rightarrow> exn option \<times> world" where
  "run_stdio env [] w = (None, w)"
| "run_stdio env (l # ls) w =
     (let line = str_strip env l
      in if line = [] then run_stdio env ls w
         else
           (case json_loads env line of
              Inl (JSONDecodeError m) \<Rightarrow>
                run_stdio env ls
                  (write_line (json_dumps env (create_error JNull (- 32700) ''Parse error'')) w)
            | Inl e \<Rightarrow> (Some e, w)
            | Inr request \<Rightarrow>
                (case process_request env request w of
                   (Inl e, w') \<Rightarrow> (Some e, w')
                 | (Inr None, w') \<Rightarrow> run_stdio env ls w'
                 | (Inr (Some response), w') \<Rightarrow>
                     run_stdio env ls (write_line (json_dumps env response) w'))))"

section \<open>Notions of the specification\<close>

text \<open>A JSON-RPC envelope has a member \<open>k\<close>.\<close>

fun has_member :: "string \<Rightarrow> json \<Rightarrow> bool" where
  "has_member k (JObj d) = (k \<in> set (map fst d))"
| "has_member k v = False"

text \<open>
  The values that Python can hash, and so look up in the table of methods: all but lists
  and dictionaries.
\<close>

definition hashable :: "json \<Rightarrow> bool" where
  "hashable v = (case v of JArr xs \<Rightarrow> False | JObj d \<Rightarrow> False | _ \<Rightarrow> True)"

text \<open>
  A response envelope for the request identifier \<open>i\<close>: it has exactly one of the members
  \<open>result\<close> and \<open>error\<close>, and its \<open>id\<close> is \<open>i\<close>.
\<close>

definition is_envelope :: "json \<Rightarrow> json \<Rightarrow> bool" where
  "is_envelope i resp =
     (has_member ''result'' resp \<noteq> has_member ''error'' resp \<and> py_item resp ''id'' = Inr i)"

text \<open>
  The trailing line of a task summary as the specification words it: chosen by the
  status; for a completed task the first available of the audio, video and image URLs,
  in this order; for a failed task the error message when there is one; for a task that
  is pending, queued or executing a notice; otherwise none.
\<close>

definition first_available :: "(string \<times> json) list \<Rightarrow> (string \<times> json) option" where
  "first_available candidates = find (\<lambda>(label, url). truthy url) candidates"

definition spec_trailing_line ::
  "env \<Rightarrow> json \<Rightarrow> json \<Rightarrow> json \<Rightarrow> json \<Rightarrow> json \<Rightarrow> string option" where
  "spec_trailing_line env status audio_url video_url image_url error_message =
     (if status = JStr ''completed'' then
        (case first_available
                [(audio_mark @ '' Audio URL: '', audio_url),
                 (video_mark @ '' Video URL: '', video_url),
                 (image_mark @ '' Image URL: '', image_url)] of
           None \<Rightarrow> None
         | Some (label, url) \<Rightarrow> Some (nl @ label @ py_str env url))
      else if status = JStr ''failed'' then
        (if truthy error_message
         then Some (nl @ error_mark @ '' Error: '' @ py_str env error_message) else None)
      else if status \<in> {JStr ''pending'', JStr ''queued'', JStr ''executing''} then
        Some (nl @ wait_mark @ '' Task is still '' @ py_str env status @ ''. Check again shortly.'')
      else None)"

text \<open>
  The lines that every summary starts with, and the line of the actual cost, present when
  the task document gives a cost other than an empty value and the placeholder.
\<close>

definition spec_head_lines :: "env \<Rightarrow> json \<Rightarrow> json \<Rightarrow> json \<Rightarrow> json \<Rightarrow> string list" where
  "spec_head_lines env task_id task_type status estimated_cost =
     [''Task: '' @ py_str env task_id,
      ''Type: '' @ py_str env task_type,
      ''Status: '' @ py_str env status,
      ''Estimated Cost: $'' @ py_str env estimated_cost]"

definition spec_actual_cost_line :: "env \<Rightarrow> json \<Rightarrow> string option" where
  "spec_actual_cost_line env actual_cost =
     (if truthy actual_cost \<and> actual_cost \<noteq> JStr ''N/A''
      then Some (''Actual Cost: $'' @ py_str env actual_cost) else None)"

definition lines_of :: "string option \<Rightarrow> string list" where
  "lines_of l = (case l of None \<Rightarrow> [] | Some x \<Rightarrow> [x])"

text \<open>
  The result of a task as the data model describes it: a mapping that may hold
  \<open>video_url\<close>, \<open>image_url\<close>, \<open>output_url\<close> and a sequence \<open>items\<close> whose first
  element carries \<open>audio_url\<close> and \<open>image_url\<close>. A result is well formed when the
  first element of a non-empty \<open>items\<close> list is a mapping.
\<close>

definition first_item :: "(string \<times> json) list \<Rightarrow> (string \<times> json) list option" where
  "first_item r =
     (case dict_get r ''items'' (JArr []) of
        JArr (JObj item # rest) \<Rightarrow> Some item
      | _ \<Rightarrow> None)"

definition wf_result :: "(string \<times> json) list \<Rightarrow> bool" where
  "wf_result r =
     (case dict_get r ''items'' (JArr []) of
        JArr (x # rest) \<Rightarrow> (case x of JObj item \<Rightarrow> True | _ \<Rightarrow> False)
      | _ \<Rightarrow> True)"

text \<open>
  The three URLs as the specification words them: the audio URL is the first item's; the
  video URL is \<open>video_url\<close> or else \<open>output_url\<close>; the image URL is \<open>image_url\<close> or
  else \<open>output_url\<close>, falling back to the first item's when still absent.
\<close>

definition spec_audio_url :: "(string \<times> json) list \<Rightarrow> json" where
  "spec_audio_url r =
     (case first_item r of None \<Rightarrow> JNull | Some item \<Rightarrow> dict_get item ''audio_url'' JNull)"

definition spec_video_url :: "(string \<times> json) list \<Rightarrow> json" where
  "spec_video_url r = py_or (dict_get r ''video_url'' JNull) (dict_get r ''output_url'' JNull)"

definition spec_image_url :: "(string \<times> json) list \<Rightarrow> json" where
  "spec_image_url r =
     (let i = py_or (dict_get r ''image_url'' JNull) (dict_get r ''output_url'' JNull)
      in if truthy i then i
         else (case first_item r of None \<Rightarrow> i | Some item \<Rightarrow> dict_get item ''image_url'' JNull))"

text \<open>The lines that a run of the line transport writes.\<close>

definition written :: "env \<Rightarrow> string list \<Rightarrow> world \<Rightarrow> string list" where
  "written env ls w = drop (length (stdout w)) (stdout (snd (run_stdio env ls w)))"

section \<open>A sample library and sample remote services\<close>

text \<open>
  Concrete parameters on which the model can be evaluated: a decoder that knows a few
  lines, a serialiser that writes a float to one decimal place, \<^verbatim>\<open>strip\<close> for ASCII
  white space, and renderings of values and exceptions.
\<close>

fun nat_str :: "nat \<Rightarrow> string" where
  "nat_str n = (if n < 10 then [''0123456789'' ! n]
                else nat_str (n div 10) @ [''0123456789'' ! (n mod 10)])"

declare nat_str.simps [simp del]

definition int_str :: "int \<Rightarrow> string" where
  "int_str i = (if i < 0 then ''-'' @ nat_str (nat (- i)) else nat_str (nat i))"

definition float_str :: "rat \<Rightarrow> string" where
  "float_str r =
     (if r < 0 then ''-'' else [])
     @ nat_str (nat \<lfloor>\<bar>r\<bar> * 10\<rfloor> div 10) @ ''.'' @ nat_str (nat \<lfloor>\<bar>r\<bar> * 10\<rfloor> mod 10)"

definition quoted :: "string \<Rightarrow> string" where
  "quoted s = [CHR 0x22] @ s @ [CHR 0x22]"

fun sample_dumps :: "json \<Rightarrow> string" where
  "sample_dumps JNull = ''null''"
| "sample_dumps (JBool b) = (if b then ''true'' else ''false'')"
| "sample_dumps (JInt i) = int_str i"
| "sample_dumps (JFloat r) = float_str r"
| "sample_dumps (JStr s) = quoted s"
| "sample_dumps (JArr xs) = ''['' @ join '', '' (map sample_dumps xs) @ '']''"
| "sample_dumps (JObj d) =
     ''{'' @ join '', '' (map (\<lambda>kv. quoted (fst kv) @ '': '' @ sample_dumps (snd kv)) d) @ ''}''"

definition sample_repr :: "json \<Rightarrow> string" where
  "sample_repr v =
     (case v of
        JNull \<Rightarrow> ''None''
      | JBool b \<Rightarrow> (if b then ''True'' else ''False'')
      | JInt i \<Rightarrow> int_str i
      | _ \<Rightarrow> sample_dumps v)"

definition sample_exn_str :: "exn \<Rightarrow> string" where
  "sample_exn_str e =
     (case e of
        AttributeError v a \<Rightarrow> ''object has no attribute '' @ a
      | TypeError v a \<Rightarrow> ''unsupported operand for '' @ a
      | KeyError k \<Rightarrow> k
      | JSONDecodeError m \<Rightarrow> m
      | ValueError m \<Rightarrow> m
      | RecursionError m \<Rightarrow> m)"

definition is_space :: "char \<Rightarrow> bool" where
  "is_space c = (c \<in> set [CHR '' '', CHR 0x09, CHR 0x0A, CHR 0x0B, CHR 0x0C, CHR 0x0D])"

definition sample_strip :: "string \<Rightarrow> string" where
  "sample_strip s = rev (dropWhile is_space (rev (dropWhile is_space s)))"

definition unknown_method_request :: json where
  "unknown_method_request =
     JObj [(''jsonrpc'', JStr ''2.0''), (''id'', JInt 7), (''method'', JStr ''foo/bar'')]"

definition initialized_notification :: json where
  "initialized_notification =
     JObj [(''jsonrpc'', JStr ''2.0''), (''method'', JStr ''notifications/initialized'')]"

text \<open>
  A line of 100000 opening brackets: \<^verbatim>\<open>json.loads\<close> raises \<^verbatim>\<open>RecursionError\<close> on
  it.
\<close>

definition deep_line :: string where
  "deep_line = replicate 100000 (CHR ''['')"

definition sample_loads :: "string \<Rightarrow> exn + json" where
  "sample_loads l =
     (if l = sample_dumps unknown_method_request then Inr unknown_method_request
      else if l = sample_dumps initialized_notification then Inr initialized_notification
      else if l = ''{}'' then Inr (JObj [])
      else if l = ''null'' then Inr JNull
      else if l = deep_line
      then Inl (RecursionError ''maximum recursion depth exceeded while decoding a JSON array'')
      else Inl (JSONDecodeError ''Expecting value''))"

definition sample_env :: "(nat \<Rightarrow> call \<Rightarrow> http_failure + json) \<Rightarrow> env" where
  "sample_env remote =
     \<lparr>respond = remote, json_loads = sample_loads, json_dumps = sample_dumps,
      str_strip = sample_strip, py_repr = sample_repr, exn_str = sample_exn_str\<rparr>"

text \<open>A remote service that answers every call with status 500, and one that answers
  every call with the same document.\<close>

definition remote_down :: "nat \<Rightarrow> call \<Rightarrow> http_failure + json" where
  "remote_down n c =
     Inl \<lparr>failure_str = ''Server error 500'',
          failure_response = Some \<lparr>response_json = None, response_text = ''Internal Server Error''\<rparr>\<rparr>"

definition remote_answers :: "json \<Rightarrow> nat \<Rightarrow> call \<Rightarrow> http_failure + json" where
  "remote_answers doc n c = Inr doc"

definition w0 :: world where
  "w0 = \<lparr>calls = [], stdout = []\<rparr>"

section \<open>Facts about the HTTP client and the tool handlers\<close>




lemma dict_get_Cons:
  "dict_get ((k', v) # r) k d = (if k = k' then v else dict_get r k d)"
  by (simp add: dict_get_def)




lemma make_v3_get_request_snd:
  "snd (make_v3_get_request env ep w) = w\<lparr>calls := calls w @ [Get_v3 ep]\<rparr>"
  by (simp add: make_v3_get_request_def attempt_def split: sum.splits)

lemma make_v3_get_request_ok:
  "respond env (length (calls w)) (Get_v3 ep) = Inr body \<Longrightarrow>
   fst (make_v3_get_request env ep w) = body"
  by (simp add: make_v3_get_request_def attempt_def)





lemma handle_get_task_dict:
  "truthy (dict_get args ''task_id'' (JStr [])) \<Longrightarrow>
   handle_get_task env (JObj args) w =
     (task_reply env (dict_get args ''task_id'' (JStr []))
        (fst (make_v3_get_request env
                (''/v3/tasks/'' @ py_str env (dict_get args ''task_id'' (JStr []))) w)),
      snd (make_v3_get_request env
             (''/v3/tasks/'' @ py_str env (dict_get args ''task_id'' (JStr []))) w))"
  by (simp add: handle_get_task_def split: prod.splits)

lemma task_reply_ok:
  "''error'' \<notin> set (map fst doc) \<Longrightarrow>
   task_reply env task_id (JObj doc) =
     (case task_summary env task_id (JObj doc) of
        Inl e \<Rightarrow> Inl e
      | Inr t \<Rightarrow> Inr (text_result t))"
  by (simp add: task_reply_def)


lemma extract_urls_wf:
  assumes "wf_result r"
  shows "extract_urls (JObj r) = Inr (spec_video_url r, spec_image_url r, spec_audio_url r)"
proof (cases "dict_get r ''items'' (JArr [])")
  case (JArr xs)
  show ?thesis
  proof (cases xs)
    case Nil
    with JArr show ?thesis
      by (simp add: extract_urls_def spec_video_url_def spec_image_url_def spec_audio_url_def
          first_item_def py_or_def Let_def)
  next
    case (Cons x rest)
    with JArr assms obtain item where "x = JObj item"
      by (auto simp: wf_result_def split: json.splits)
    with JArr Cons show ?thesis
      by (simp add: extract_urls_def spec_video_url_def spec_image_url_def spec_audio_url_def
          first_item_def py_or_def Let_def)
  qed
qed (simp_all add: extract_urls_def spec_video_url_def spec_image_url_def spec_audio_url_def
          first_item_def py_or_def Let_def)

lemma task_summary_dict:
  "extract_urls (py_or (dict_get doc ''result'' (JObj [])) (JObj [])) = Inr (v, i, a) \<Longrightarrow>
   task_summary env task_id (JObj doc) =
     Inr (join nl (task_lines env task_id (dict_get doc ''type'' (JStr ''unknown''))
                     (dict_get doc ''status'' (JStr ''unknown''))
                     (dict_get doc ''estimated_cost'' (JStr ''N/A''))
                     (dict_get doc ''actual_cost'' (JStr ''N/A''))
                     (dict_get doc ''error_message'' JNull) v i a))"
  by (simp add: task_summary_def)

lemma first_available_3:
  "first_available [(la, a), (lv, v), (li, i)] =
     (if truthy a then Some (la, a) else if truthy v then Some (lv, v)
      else if truthy i then Some (li, i) else None)"
  by (simp add: first_available_def)

lemma task_lines_spec:
  "task_lines env task_id task_type status estimated_cost actual_cost error_message v i a =
     spec_head_lines env task_id task_type status estimated_cost
     @ lines_of (spec_actual_cost_line env actual_cost)
     @ lines_of (spec_trailing_line env status a v i error_message)"
  by (simp add: task_lines_def spec_head_lines_def spec_actual_cost_line_def
      spec_trailing_line_def lines_of_def first_available_3 py_in_strs_def)

lemma handle_get_task_fetched:
  assumes "truthy (dict_get args ''task_id'' (JStr []))"
    and "respond env (length (calls w))
           (Get_v3 (''/v3/tasks/'' @ py_str env (dict_get args ''task_id'' (JStr [])))) =
         Inr (JObj doc)"
    and "''error'' \<notin> set (map fst doc)"
    and "py_or (dict_get doc ''result'' (JObj [])) (JObj []) = JObj r"
    and "wf_result r"
  shows "handle_get_task env (JObj args) w =
           (Inr (text_result
                   (join nl
                      (spec_head_lines env (dict_get args ''task_id'' (JStr []))
                         (dict_get doc ''type'' (JStr ''unknown''))
                         (dict_get doc ''status'' (JStr ''unknown''))
                         (dict_get doc ''estimated_cost'' (JStr ''N/A''))
                       @ lines_of (spec_actual_cost_line env
                                     (dict_get doc ''actual_cost'' (JStr ''N/A'')))
                       @ lines_of (spec_trailing_line env
                                     (dict_get doc ''status'' (JStr ''unknown''))
                                     (spec_audio_url r) (spec_video_url r) (spec_image_url r)
                                     (dict_get doc ''error_message'' JNull))))),
            w\<lparr>calls := calls w
                   @ [Get_v3 (''/v3/tasks/'' @ py_str env (dict_get args ''task_id'' (JStr [])))]\<rparr>)"
proof -
  have "extract_urls (py_or (dict_get doc ''result'' (JObj [])) (JObj [])) =
          Inr (spec_video_url r, spec_image_url r, spec_audio_url r)"
    using assms(4,5) by (simp only: extract_urls_wf)
  then have "task_summary env (dict_get args ''task_id'' (JStr [])) (JObj doc) =
     Inr (join nl (task_lines env (dict_get args ''task_id'' (JStr []))
                     (dict_get doc ''type'' (JStr ''unknown''))
                     (dict_get doc ''status'' (JStr ''unknown''))
                     (dict_get doc ''estimated_cost'' (JStr ''N/A''))
                     (dict_get doc ''actual_cost'' (JStr ''N/A''))
                     (dict_get doc ''error_message'' JNull)
                     (spec_video_url r) (spec_image_url r) (spec_audio_url r)))"
    by (rule task_summary_dict)
  then show ?thesis
    using assms(2,3)
    by (simp add: handle_get_task_dict [OF assms(1)] make_v3_get_request_ok
        make_v3_get_request_snd task_reply_ok task_lines_spec)
qed

section \<open>Facts about the dispatcher\<close>

lemma process_request_dict:
  "process_request env (JObj r) w =
     (if dict_get r ''id'' JNull = JNull then
        (case dict_get r ''method'' (JStr []) of
           JStr m \<Rightarrow> (Inr None, w)
         | _ \<Rightarrow> (Inl (AttributeError (dict_get r ''method'' (JStr [])) ''startswith''), w))
      else
        (case lookup_handler (dict_get r ''method'' (JStr [])) of
           Inl e \<Rightarrow> (Inl e, w)
         | Inr None \<Rightarrow>
             (Inr (Some (create_error (dict_get r ''id'' JNull) (- 32601)
                           (''Method not found: '' @ py_str env (dict_get r ''method'' (JStr []))))), w)
         | Inr (Some handler) \<Rightarrow>
             (case handler env (py_or (dict_get r ''params'' JNull) (JObj [])) w of
                (Inl e, w') \<Rightarrow>
                  (Inr (Some (create_error (dict_get r ''id'' JNull) (- 32000) (exn_str env e))), w')
              | (Inr result, w') \<Rightarrow>
                  (Inr (Some (wrap_result env (dict_get r ''id'' JNull) result)), w'))))"
  by (simp add: process_request_def Let_def)

lemma has_member_create_response:
  "has_member ''result'' (create_response i x)" "\<not> has_member ''error'' (create_response i x)"
  "py_item (create_response i x) ''id'' = Inr i"
  by (simp_all add: create_response_def)

lemma has_member_create_error:
  "\<not> has_member ''result'' (create_error i c m)" "has_member ''error'' (create_error i c m)"
  "py_item (create_error i c m) ''id'' = Inr i"
  by (simp_all add: create_error_def)

lemma wrap_result_cases:
  "(\<exists>m. wrap_result env i result = create_error i (- 32000) m)
   \<or> wrap_result env i result = create_response i result"
  by (auto simp: wrap_result_def split: sum.splits bool.splits json.splits)

lemma envelope_wrap: "is_envelope i (wrap_result env i result)"
  using wrap_result_cases [of env i result]
  by (auto simp: is_envelope_def has_member_create_response has_member_create_error)

lemma envelope_error: "is_envelope i (create_error i c m)"
  by (simp add: is_envelope_def has_member_create_error)

lemma process_request_responds:
  assumes "dict_get r ''id'' JNull \<noteq> JNull"
    and "\<forall>e. lookup_handler (dict_get r ''method'' (JStr [])) \<noteq> Inl e"
  shows "\<exists>resp w'. process_request env (JObj r) w = (Inr (Some resp), w')
            \<and> is_envelope (dict_get r ''id'' JNull) resp"
proof (cases "lookup_handler (dict_get r ''method'' (JStr []))")
  case (Inl e)
  with assms(2) show ?thesis by simp
next
  case (Inr h)
  show ?thesis
  proof (cases h)
    case None
    with Inr assms(1) show ?thesis
      by (simp add: process_request_dict envelope_error)
  next
    case (Some handler)
    obtain res w' where hw: "handler env (py_or (dict_get r ''params'' JNull) (JObj [])) w = (res, w')"
      by (cases "handler env (py_or (dict_get r ''params'' JNull) (JObj [])) w")
    show ?thesis
      using Inr Some assms(1) hw
      by (cases res) (simp_all add: process_request_dict envelope_error envelope_wrap)
  qed
qed

lemma process_request_notification:
  assumes "map_of r ''id'' = None"
  shows "snd (process_request env (JObj r) w) = w"
    and "\<forall>resp. fst (process_request env (JObj r) w) \<noteq> Inr (Some resp)"
    and "dict_get r ''method'' (JStr []) = JStr m \<Longrightarrow> process_request env (JObj r) w = (Inr None, w)"
  using assms by (simp_all add: process_request_dict dict_get_def split: json.splits)

lemma params_falsy:
  assumes "\<not> truthy (dict_get r ''params'' JNull)"
  shows "process_request env (JObj r) w = process_request env (JObj ((''params'', JObj []) # r)) w"
proof -
  have a: "dict_get ((''params'', JObj []) # r) ''id'' JNull = dict_get r ''id'' JNull"
    and b: "dict_get ((''params'', JObj []) # r) ''method'' (JStr []) =
            dict_get r ''method'' (JStr [])"
    and c: "py_or (dict_get ((''params'', JObj []) # r) ''params'' JNull) (JObj []) =
            py_or (dict_get r ''params'' JNull) (JObj [])"
    using assms by (simp_all add: dict_get_Cons py_or_def)
  show ?thesis
    unfolding process_request_dict a b c ..
qed

lemma handlers_of_table:
  "map_of METHOD_HANDLERS m = Some h \<Longrightarrow>
   h \<in> {handle_initialize, handle_tools_list, handle_tools_call, handle_resources_list,
        handle_resources_read}"
  by (auto simp: METHOD_HANDLERS_def split: if_splits)

lemma handler_empty_params:
  assumes "map_of METHOD_HANDLERS m = Some h"
  shows "\<exists>result w'. h env (JObj []) w = (Inr result, w')"
  using handlers_of_table [OF assms]
  by (auto simp: handle_initialize_def handle_tools_list_def handle_tools_call_def
      handle_resources_list_def handle_resources_read_def dict_get_def split: prod.splits)

lemma lookup_handler_Some:
  "lookup_handler v = Inr (Some h) \<Longrightarrow> \<exists>m. v = JStr m \<and> map_of METHOD_HANDLERS m = Some h"
  by (cases v) simp_all

lemma lookup_handler_hashable: "hashable v \<Longrightarrow> lookup_handler v \<noteq> Inl e"
  by (cases v) (simp_all add: hashable_def)









section \<open>Standard output is written by the line transport only\<close>

text \<open>
  No handler reads or writes standard output, so a run of the line transport behaves the
  same whatever has been written before, and only appends to it.
\<close>

lemma make_request_frame:
  "make_request env ep p (w\<lparr>stdout := s\<rparr>) =
     (fst (make_request env ep p w), (snd (make_request env ep p w))\<lparr>stdout := s\<rparr>)"
  by (simp add: make_request_def attempt_def split: sum.splits)

lemma make_v3_request_frame:
  "make_v3_request env ep p (w\<lparr>stdout := s\<rparr>) =
     (fst (make_v3_request env ep p w), (snd (make_v3_request env ep p w))\<lparr>stdout := s\<rparr>)"
  by (simp add: make_v3_request_def attempt_def split: sum.splits)

lemma make_v3_get_request_frame:
  "make_v3_get_request env ep (w\<lparr>stdout := s\<rparr>) =
     (fst (make_v3_get_request env ep w), (snd (make_v3_get_request env ep w))\<lparr>stdout := s\<rparr>)"
  by (simp add: make_v3_get_request_def attempt_def split: sum.splits)

lemmas request_frames = make_request_frame make_v3_request_frame make_v3_get_request_frame

lemma handle_initialize_frame:
  "handle_initialize env p (w\<lparr>stdout := s\<rparr>) =
     (fst (handle_initialize env p w), (snd (handle_initialize env p w))\<lparr>stdout := s\<rparr>)"
  by (cases p) (simp_all add: handle_initialize_def split_beta request_frames)

lemma handle_tools_list_frame:
  "handle_tools_list env p (w\<lparr>stdout := s\<rparr>) =
     (fst (handle_tools_list env p w), (snd (handle_tools_list env p w))\<lparr>stdout := s\<rparr>)"
  by (simp add: handle_tools_list_def split_beta request_frames)

lemma handle_resources_list_frame:
  "handle_resources_list env p (w\<lparr>stdout := s\<rparr>) =
     (fst (handle_resources_list env p w), (snd (handle_resources_list env p w))\<lparr>stdout := s\<rparr>)"
  by (simp add: handle_resources_list_def split_beta request_frames)

lemma handle_resources_read_frame:
  "handle_resources_read env p (w\<lparr>stdout := s\<rparr>) =
     (fst (handle_resources_read env p w), (snd (handle_resources_read env p w))\<lparr>stdout := s\<rparr>)"
  by (cases p) (simp_all add: handle_resources_read_def split_beta request_frames)

lemma handle_generate_video_frame:
  "handle_generate_video env a (w\<lparr>stdout := s\<rparr>) =
     (fst (handle_generate_video env a w), (snd (handle_generate_video env a w))\<lparr>stdout := s\<rparr>)"
  by (cases a) (simp_all add: handle_generate_video_def split_beta request_frames Let_def)

lemma handle_estimate_video_cost_frame:
  "handle_estimate_video_cost env a (w\<lparr>stdout := s\<rparr>) =
     (fst (handle_estimate_video_cost env a w),
      (snd (handle_estimate_video_cost env a w))\<lparr>stdout := s\<rparr>)"
  by (cases a) (simp_all add: handle_estimate_video_cost_def Let_def)

lemma handle_get_task_frame:
  "handle_get_task env a (w\<lparr>stdout := s\<rparr>) =
     (fst (handle_get_task env a w), (snd (handle_get_task env a w))\<lparr>stdout := s\<rparr>)"
  by (cases a) (simp_all add: handle_get_task_def split_beta request_frames)

lemma handle_tools_call_frame:
  "handle_tools_call env p (w\<lparr>stdout := s\<rparr>) =
     (fst (handle_tools_call env p w), (snd (handle_tools_call env p w))\<lparr>stdout := s\<rparr>)"
  by (cases p)
    (simp_all add: handle_tools_call_def split_beta request_frames handle_generate_video_frame
      handle_estimate_video_cost_frame handle_get_task_frame split: sum.splits)

lemma table_frame:
  assumes "map_of METHOD_HANDLERS m = Some h"
  shows "h env p (w\<lparr>stdout := s\<rparr>) = (fst (h env p w), (snd (h env p w))\<lparr>stdout := s\<rparr>)"
proof -
  have "h \<in> {handle_initialize, handle_tools_list, handle_tools_call, handle_resources_list,
        handle_resources_read}"
    using assms by (auto simp: METHOD_HANDLERS_def split: if_splits)
  then show ?thesis
    using handle_initialize_frame handle_tools_list_frame handle_tools_call_frame
      handle_resources_list_frame handle_resources_read_frame
    by auto
qed

lemma process_request_frame:
  "process_request env req (w\<lparr>stdout := s\<rparr>) =
     (fst (process_request env req w), (snd (process_request env req w))\<lparr>stdout := s\<rparr>)"
proof (cases req)
  case (JObj r)
  show ?thesis
  proof (cases "dict_get r ''id'' JNull = JNull")
    case True
    with JObj show ?thesis
      by (simp add: process_request_def Let_def split: json.splits)
  next
    case False
    show ?thesis
    proof (cases "lookup_handler (dict_get r ''method'' (JStr []))")
      case (Inl e)
      with JObj False show ?thesis by (simp add: process_request_def Let_def)
    next
      case (Inr ho)
      show ?thesis
      proof (cases ho)
        case None
        with JObj False Inr show ?thesis by (simp add: process_request_def Let_def)
      next
        case (Some h)
        with Inr obtain m where "map_of METHOD_HANDLERS m = Some h"
          using lookup_handler_Some by blast
        note fr = table_frame [OF this]
        show ?thesis
          using JObj False Inr Some
          by (simp add: process_request_def Let_def fr split_beta split: sum.splits)
      qed
    qed
  qed
qed (simp_all add: process_request_def)

lemma process_request_stdout:
  "stdout (snd (process_request env req w)) = stdout w"
proof -
  have "process_request env req w =
     (fst (process_request env req w), (snd (process_request env req w))\<lparr>stdout := stdout w\<rparr>)"
    using process_request_frame [where w = w and s = "stdout w"] by simp
  then have "stdout (snd (process_request env req w)) =
             stdout ((snd (process_request env req w))\<lparr>stdout := stdout w\<rparr>)"
    by (metis snd_conv)
  then show ?thesis by simp
qed

lemma write_line_frame: "write_line x (w\<lparr>stdout := s\<rparr>) = w\<lparr>stdout := s @ [x]\<rparr>"
  by (simp add: write_line_def)

lemma run_stdio_frame:
  "run_stdio env ls (w\<lparr>stdout := s\<rparr>) =
     (fst (run_stdio env ls (w\<lparr>stdout := []\<rparr>)),
      (snd (run_stdio env ls (w\<lparr>stdout := []\<rparr>)))
        \<lparr>stdout := s @ stdout (snd (run_stdio env ls (w\<lparr>stdout := []\<rparr>)))\<rparr>)"
proof (induction ls arbitrary: w s)
  case Nil
  show ?case by simp
next
  case (Cons l ls)
  have step: "run_stdio env ls (v\<lparr>stdout := t @ [x]\<rparr>) =
     (fst (run_stdio env ls (v\<lparr>stdout := []\<rparr>)),
      (snd (run_stdio env ls (v\<lparr>stdout := []\<rparr>)))
        \<lparr>stdout := t @ [x] @ stdout (snd (run_stdio env ls (v\<lparr>stdout := []\<rparr>)))\<rparr>)" for v t x
    using Cons.IH [where w = v and s = "t @ [x]"] by simp
  show ?case
  proof (cases "str_strip env l = []")
    case True
    then show ?thesis using Cons.IH [where w = w and s = s] by simp
  next
    case False
    show ?thesis
    proof (cases "json_loads env (str_strip env l)")
      case (Inl e)
      show ?thesis
      proof (cases e)
        case (JSONDecodeError m)
        show ?thesis
          using False Inl JSONDecodeError step [where v = w and t = s]
            step [where v = w and t = "[]"]
          by (simp add: write_line_frame)
      qed (use False Inl in simp_all)
    next
      case ld: (Inr req)
      obtain res w' where pr: "process_request env req w = (res, w')"
        by (cases "process_request env req w")
      have prs: "process_request env req (w\<lparr>stdout := t\<rparr>) = (res, w'\<lparr>stdout := t\<rparr>)" for t
        using process_request_frame [where w = w and s = t and env = env and req = req] pr by simp
      show ?thesis
      proof (cases res)
        case (Inl e)
        then show ?thesis using False ld prs by simp
      next
        case (Inr ro)
        show ?thesis
        proof (cases ro)
          case None
          then show ?thesis
            using False ld Inr prs Cons.IH [where w = w' and s = s]
              Cons.IH [where w = w' and s = "[]"]
            by simp
        next
          case (Some resp)
          then show ?thesis
            using False ld Inr prs step [where v = w' and t = s] step [where v = w' and t = "[]"]
            by (simp add: write_line_frame)
        qed
      qed
    qed
  qed
qed

lemma run_stdio_written:
  "fst (run_stdio env ls (w\<lparr>stdout := s\<rparr>)) = fst (run_stdio env ls w)"
  "calls (snd (run_stdio env ls (w\<lparr>stdout := s\<rparr>))) = calls (snd (run_stdio env ls w))"
  "stdout (snd (run_stdio env ls (w\<lparr>stdout := s\<rparr>))) = s @ written env ls w"
proof -
  let ?R = "run_stdio env ls (w\<lparr>stdout := []\<rparr>)"
  have a: "run_stdio env ls (w\<lparr>stdout := t\<rparr>) = (fst ?R, (snd ?R)\<lparr>stdout := t @ stdout (snd ?R)\<rparr>)"
    for t by (rule run_stdio_frame)
  have b: "run_stdio env ls w = (fst ?R, (snd ?R)\<lparr>stdout := stdout w @ stdout (snd ?R)\<rparr>)"
    using a [of "stdout w"] by simp
  have c: "written env ls w = stdout (snd ?R)"
    by (simp add: written_def b)
  show "fst (run_stdio env ls (w\<lparr>stdout := s\<rparr>)) = fst (run_stdio env ls w)"
    by (simp add: a [of s] b)
  show "calls (snd (run_stdio env ls (w\<lparr>stdout := s\<rparr>))) = calls (snd (run_stdio env ls w))"
    by (simp add: a [of s] b)
  show "stdout (snd (run_stdio env ls (w\<lparr>stdout := s\<rparr>))) = s @ written env ls w"
    by (simp add: a [of s] c)
qed

lemma run_stdio_single:
  assumes "str_strip env l \<noteq> []" and "json_loads env (str_strip env l) = Inr req"
    and "process_request env req w = (Inr (Some resp), w')"
  shows "written env [l] w = [json_dumps env resp]"
proof -
  have "stdout w' = stdout w"
    using process_request_stdout [of env req w] assms(3) by simp
  then show ?thesis
    using assms by (simp add: written_def write_line_def)
qed

lemma decode_error_line_answered:
  assumes "str_strip env l \<noteq> []" and "json_loads env (str_strip env l) = Inl (JSONDecodeError m)"
  shows "fst (run_stdio env (l # ls) w) = fst (run_stdio env ls w)
         \<and> calls (snd (run_stdio env (l # ls) w)) = calls (snd (run_stdio env ls w))
         \<and> stdout (snd (run_stdio env (l # ls) w)) =
             stdout w
             @ [json_dumps env
                  (JObj [(''jsonrpc'', JStr ''2.0''), (''id'', JNull),
                         (''error'', JObj [(''code'', JInt (- 32700)),
                                           (''message'', JStr ''Parse error'')])])]
             @ written env ls w"
proof -
  have "run_stdio env (l # ls) w =
          run_stdio env ls
            (w\<lparr>stdout := stdout w @ [json_dumps env (create_error JNull (- 32700) ''Parse error'')]\<rparr>)"
    using assms by (simp add: write_line_def)
  then show ?thesis
    by (simp add: run_stdio_written create_error_def)
qed

section \<open>Facts about the sample library\<close>

lemma sample_env_fields:
  "respond (sample_env rm) = rm" "json_loads (sample_env rm) = sample_loads"
  "json_dumps (sample_env rm) = sample_dumps" "str_strip (sample_env rm) = sample_strip"
  "py_repr (sample_env rm) = sample_repr" "exn_str (sample_env rm) = sample_exn_str"
  by (simp_all add: sample_env_def)

lemma sample_strip_object: "sample_strip (sample_dumps (JObj d)) = sample_dumps (JObj d)"
  by (simp add: sample_strip_def is_space_def)

lemma sample_dumps_object_nonempty: "sample_dumps (JObj d) \<noteq> []"
  by simp

lemma sample_loads_unknown:
  "sample_loads (sample_dumps unknown_method_request) = Inr unknown_method_request"
  by (simp add: sample_loads_def)

lemma sample_loads_initialized:
  "sample_loads (sample_dumps initialized_notification) = Inr initialized_notification"
  by code_simp

lemma deep_line_chars: "set deep_line = {CHR ''[''}"
  by (simp add: deep_line_def)

lemma deep_line_differs: "c \<in> set l \<Longrightarrow> c \<noteq> CHR ''['' \<Longrightarrow> l \<noteq> deep_line"
  using deep_line_chars by auto

lemma deep_line_not_object: "sample_dumps (JObj d) \<noteq> deep_line"
  by (rule deep_line_differs [where c = "CHR 0x7B"]) simp_all

lemma deep_line_nonempty: "deep_line \<noteq> []"
  by (simp add: deep_line_def)

lemma sample_strip_deep_line: "sample_strip deep_line = deep_line"
  by (simp add: sample_strip_def deep_line_def is_space_def)

lemma sample_loads_deep_line:
  "sample_loads deep_line =
     Inl (RecursionError ''maximum recursion depth exceeded while decoding a JSON array'')"
proof -
  have "deep_line \<noteq> sample_dumps unknown_method_request"
    "deep_line \<noteq> sample_dumps initialized_notification"
    using deep_line_not_object
    by (simp_all only: unknown_method_request_def initialized_notification_def
        not_False_eq_True) metis+
  moreover have "deep_line \<noteq> ''{}''" "deep_line \<noteq> ''null''"
    using deep_line_differs [where c = "CHR 0x7B" and l = "''{}''"]
      deep_line_differs [where c = "CHR ''n''" and l = "''null''"]
    by auto
  ultimately show ?thesis
    by (simp add: sample_loads_def)
qed

lemma sample_loads_oops: "sample_loads ''{oops'' = Inl (JSONDecodeError ''Expecting value'')"
proof -
  have "''{oops'' \<noteq> deep_line"
    by (rule deep_line_differs [where c = "CHR 0x7B"]) simp_all
  moreover have "''{oops'' \<noteq> sample_dumps unknown_method_request"
    "''{oops'' \<noteq> sample_dumps initialized_notification"
    by (simp_all add: unknown_method_request_def initialized_notification_def quoted_def)
  ultimately show ?thesis
    by (simp add: sample_loads_def)
qed

lemma process_unknown_method:
  "process_request (sample_env rm) unknown_method_request w =
     (Inr (Some (create_error (JInt 7) (- 32601) ''Method not found: foo/bar'')), w)"
  by (simp add: unknown_method_request_def process_request_dict dict_get_def
      METHOD_HANDLERS_def py_str_def)

section \<open>The cost estimate\<close>

text \<open>
  C4. Every \<^verbatim>\<open>estimate_video_cost\<close> call, whatever its arguments, leaves the state as
  it was (no remote call is made) and returns the result whose one content item is the
  text written out below, which contains \<open>$1.96\<close>. The cost that the handler computes
  does not reach the text: for a duration of 4 without audio it is 1.20, for a duration
  of 8 with audio 4.80, and both calls return the same result.
\<close>

theorem estimate_video_cost_fixed_text:
  "handle_estimate_video_cost env (JObj args) w =
     (Inr (JObj [(''content'',
                  JArr [JObj [(''type'', JStr ''text''),
                              (''text'',
                               JStr (''Video Generation Cost: $1.96 USD (fixed price)''
                                     @ [CHR 0x0A, CHR 0x0A] @ ''Provider: Veo 3.1''
                                     @ [CHR 0x0A] @ ''Requires: Tier 2+''))]])]),
      w)
   \<and> sublist ''$1.96''
        (''Video Generation Cost: $1.96 USD (fixed price)''
         @ [CHR 0x0A, CHR 0x0A] @ ''Provider: Veo 3.1'' @ [CHR 0x0A] @ ''Requires: Tier 2+'')
   \<and> estimate_cost_value (JInt 4) (JBool False) = 6 / 5
   \<and> estimate_cost_value (JInt 8) (JBool True) = 24 / 5
   \<and> handle_estimate_video_cost env
         (JObj [(''duration'', JInt 4), (''generate_audio'', JBool False)]) w
       = handle_estimate_video_cost env
           (JObj [(''duration'', JInt 8), (''generate_audio'', JBool True)]) w"
proof -
  have a: "sublist ''$1.96''
        (''Video Generation Cost: $1.96 USD (fixed price)''
         @ [CHR 0x0A, CHR 0x0A] @ ''Provider: Veo 3.1'' @ [CHR 0x0A] @ ''Requires: Tier 2+'')"
    by code_simp
  have b: "estimate_cost_value (JInt 4) (JBool False) = 6 / 5"
    by (simp add: estimate_cost_value_def coerce_duration_def py_in_ints_def table_get_def
        VIDEO_COSTS_NO_AUDIO_def)
  have c: "estimate_cost_value (JInt 8) (JBool True) = 24 / 5"
    by (simp add: estimate_cost_value_def coerce_duration_def py_in_ints_def table_get_def
        VIDEO_COSTS_WITH_AUDIO_def)
  have d: "handle_estimate_video_cost env (JObj xs) w =
     (Inr (JObj [(''content'',
                  JArr [JObj [(''type'', JStr ''text''),
                              (''text'',
                               JStr (''Video Generation Cost: $1.96 USD (fixed price)''
                                     @ [CHR 0x0A, CHR 0x0A] @ ''Provider: Veo 3.1''
                                     @ [CHR 0x0A] @ ''Requires: Tier 2+''))]])]),
      w)" for xs
    by (simp add: handle_estimate_video_cost_def Let_def text_result_def text_content_def
        estimate_text_def nl_def)
  show ?thesis
    using a b c by (simp only: d simp_thms)
qed

section \<open>Video generation\<close>

text \<open>
  C7. A \<^verbatim>\<open>generate_video\<close> call whose prompt is absent or empty (any value that
  Python takes for false) returns the result flagged as an error whose text names the
  missing prompt, and leaves the state as it was: no remote call is attempted.
\<close>

theorem generate_video_requires_prompt:
  assumes "\<not> truthy (dict_get args ''prompt'' (JStr []))"
  shows "handle_generate_video env (JObj args) w =
           (Inr (JObj [(''isError'', JBool True),
                       (''content'', JArr [JObj [(''type'', JStr ''text''),
                                                 (''text'', JStr ''Error: prompt is required'')]])]),
            w)"
  using assms by (simp add: handle_generate_video_def error_result_def text_content_def)

theorem generate_video_requires_prompt_witness:
  "\<not> truthy (dict_get [(''prompt'', JStr []), (''duration'', JInt 4)] ''prompt'' (JStr []))
   \<and> handle_generate_video (sample_env remote_down)
        (JObj [(''prompt'', JStr []), (''duration'', JInt 4)]) w0 =
           (Inr (JObj [(''isError'', JBool True),
                       (''content'', JArr [JObj [(''type'', JStr ''text''),
                                                 (''text'', JStr ''Error: prompt is required'')]])]),
            w0)"
  using generate_video_requires_prompt
          [of "[(''prompt'', JStr []), (''duration'', JInt 4)]" "sample_env remote_down" w0]
  by (simp add: dict_get_def)



section \<open>Task status\<close>

text \<open>
  C5, as amended. For a fetched task document without an \<open>error\<close> member whose result is
  absent, empty or a well-formed mapping, \<^verbatim>\<open>get_task\<close> returns the summary made of
  the lines for the task id, the type, the status and the estimated cost, the line of the
  actual cost when the document gives one, and at most one trailing line: for a completed
  task the first available of the audio, video and image URLs and none when no URL is
  available; for a failed task the error message when there is one; for a pending, queued
  or executing task the notice; none for any other status.
\<close>

theorem get_task_summary:
  assumes "truthy (dict_get args ''task_id'' (JStr []))"
    and "respond env (length (calls w))
           (Get_v3 (''/v3/tasks/'' @ py_str env (dict_get args ''task_id'' (JStr [])))) =
         Inr (JObj doc)"
    and "''error'' \<notin> set (map fst doc)"
    and "py_or (dict_get doc ''result'' (JObj [])) (JObj []) = JObj r"
    and "wf_result r"
  shows "handle_get_task env (JObj args) w =
           (Inr (JObj [(''content'',
                        JArr [JObj [(''type'', JStr ''text''),
                                    (''text'',
                                     JStr (join [CHR 0x0A]
                      (spec_head_lines env (dict_get args ''task_id'' (JStr []))
                         (dict_get doc ''type'' (JStr ''unknown''))
                         (dict_get doc ''status'' (JStr ''unknown''))
                         (dict_get doc ''estimated_cost'' (JStr ''N/A''))
                       @ lines_of (spec_actual_cost_line env
                                     (dict_get doc ''actual_cost'' (JStr ''N/A'')))
                       @ lines_of (spec_trailing_line env
                                     (dict_get doc ''status'' (JStr ''unknown''))
                                     (spec_audio_url r) (spec_video_url r) (spec_image_url r)
                                     (dict_get doc ''error_message'' JNull)))))]])]),
            w\<lparr>calls := calls w
                   @ [Get_v3 (''/v3/tasks/'' @ py_str env (dict_get args ''task_id'' (JStr [])))]\<rparr>)
         \<and> length (lines_of (spec_trailing_line env
                                 (dict_get doc ''status'' (JStr ''unknown''))
                                 (spec_audio_url r) (spec_video_url r) (spec_image_url r)
                                 (dict_get doc ''error_message'' JNull))) \<le> 1"
  using handle_get_task_fetched [OF assms]
  by (simp add: lines_of_def text_result_def text_content_def nl_def split: option.splits)

theorem get_task_summary_witness:
  "truthy (dict_get [(''task_id'', JStr ''t1'')] ''task_id'' (JStr []))
   \<and> ''error'' \<notin> set (map fst [(''type'', JStr ''music''), (''status'', JStr ''completed''),
          (''result'', JObj [(''items'', JArr [JObj [(''audio_url'', JStr ''https://x/a.mp3'')]])])])
   \<and> wf_result [(''items'', JArr [JObj [(''audio_url'', JStr ''https://x/a.mp3'')]])]
   \<and> handle_get_task
        (sample_env (remote_answers
           (JObj [(''type'', JStr ''music''), (''status'', JStr ''completed''),
                  (''result'',
                   JObj [(''items'', JArr [JObj [(''audio_url'', JStr ''https://x/a.mp3'')]])])])))
        (JObj [(''task_id'', JStr ''t1'')]) w0 =
       (Inr (JObj [(''content'',
                    JArr [JObj [(''type'', JStr ''text''),
                                (''text'',
                                 JStr (''Task: t1'' @ [CHR 0x0A] @ ''Type: music''
                                       @ [CHR 0x0A] @ ''Status: completed''
                                       @ [CHR 0x0A] @ ''Estimated Cost: $N/A''
                                       @ [CHR 0x0A, CHR 0x0A, CHR 0xF0, CHR 0x9F, CHR 0x8E, CHR 0xB5]
                                       @ '' Audio URL: https://x/a.mp3''))]])]),
        \<lparr>calls = [Get_v3 ''/v3/tasks/t1''], stdout = []\<rparr>)"
  using get_task_summary
          [of "[(''task_id'', JStr ''t1'')]"
              "sample_env (remote_answers
                 (JObj [(''type'', JStr ''music''), (''status'', JStr ''completed''),
                        (''result'',
                         JObj [(''items'',
                                JArr [JObj [(''audio_url'', JStr ''https://x/a.mp3'')]])])]))"
              w0
              "[(''type'', JStr ''music''), (''status'', JStr ''completed''),
                (''result'',
                 JObj [(''items'', JArr [JObj [(''audio_url'', JStr ''https://x/a.mp3'')]])])]"
              "[(''items'', JArr [JObj [(''audio_url'', JStr ''https://x/a.mp3'')]])]"]
  by (simp add: dict_get_def sample_env_def remote_answers_def w0_def wf_result_def py_or_def
      py_str_def spec_head_lines_def spec_actual_cost_line_def spec_trailing_line_def
      lines_of_def first_available_def spec_audio_url_def first_item_def nl_def
      audio_mark_def)

text \<open>
  The claim as stated promises a trailing line for every completed task. A completed task
  whose result is null has none: the summary ends with the line of the estimated cost.
\<close>

theorem get_task_completed_without_url:
  "handle_get_task
     (sample_env (remote_answers
        (JObj [(''type'', JStr ''video''), (''status'', JStr ''completed''),
               (''result'', JNull)])))
     (JObj [(''task_id'', JStr ''t1'')]) w0 =
   (Inr (JObj [(''content'',
                JArr [JObj [(''type'', JStr ''text''),
                            (''text'',
                             JStr (''Task: t1'' @ [CHR 0x0A] @ ''Type: video''
                                   @ [CHR 0x0A] @ ''Status: completed''
                                   @ [CHR 0x0A] @ ''Estimated Cost: $N/A''))]])]),
    \<lparr>calls = [Get_v3 ''/v3/tasks/t1''], stdout = []\<rparr>)"
  by (simp add: handle_get_task_def dict_get_def make_v3_get_request_def attempt_def
      sample_env_def remote_answers_def w0_def task_reply_def task_summary_def py_or_def
      extract_urls_def task_lines_def py_str_def py_in_strs_def nl_def text_result_def
      text_content_def)

text \<open>
  C10. When the fetched task document has no \<open>result\<close> member, or has it null, the handler
  goes on with the empty mapping: no URL is extracted, no exception is raised, the reply is
  the one for the document with \<open>result\<close> set to the empty mapping, and the result
  returned has one content item whose text, written out below, holds the lines for id,
  type, status and estimated cost, the line of the actual cost when there is one, and the
  trailing line that the status alone decides (none for a completed task).
\<close>

theorem get_task_without_result:
  assumes "truthy (dict_get args ''task_id'' (JStr []))"
    and "respond env (length (calls w))
           (Get_v3 (''/v3/tasks/'' @ py_str env (dict_get args ''task_id'' (JStr [])))) =
         Inr (JObj doc)"
    and "''error'' \<notin> set (map fst doc)"
    and "map_of doc ''result'' = None \<or> map_of doc ''result'' = Some JNull"
  shows "(let task_id = dict_get args ''task_id'' (JStr []);
              task_type = dict_get doc ''type'' (JStr ''unknown'');
              status = dict_get doc ''status'' (JStr ''unknown'');
              estimated_cost = dict_get doc ''estimated_cost'' (JStr ''N/A'');
              actual_cost = dict_get doc ''actual_cost'' (JStr ''N/A'');
              error_message = dict_get doc ''error_message'' JNull
          in handle_get_task env (JObj args) w =
               (Inr (JObj [(''content'',
                      JArr [JObj [(''type'', JStr ''text''),
                                  (''text'',
                                   JStr (''Task: '' @ py_str env task_id @ [CHR 0x0A]
                   @ ''Type: '' @ py_str env task_type @ [CHR 0x0A]
                   @ ''Status: '' @ py_str env status @ [CHR 0x0A]
                   @ ''Estimated Cost: $'' @ py_str env estimated_cost
                   @ (if truthy actual_cost \<and> actual_cost \<noteq> JStr ''N/A''
                      then [CHR 0x0A] @ ''Actual Cost: $'' @ py_str env actual_cost else [])
                   @ (if status = JStr ''failed'' \<and> truthy error_message
                      then [CHR 0x0A, CHR 0x0A, CHR 0xE2, CHR 0x9D, CHR 0x8C]
                           @ '' Error: '' @ py_str env error_message
                      else if status \<in> {JStr ''pending'', JStr ''queued'', JStr ''executing''}
                      then [CHR 0x0A, CHR 0x0A, CHR 0xE2, CHR 0x8F, CHR 0xB3]
                           @ '' Task is still '' @ py_str env status
                           @ ''. Check again shortly.''
                      else [])))]])]),
                w\<lparr>calls := calls w @ [Get_v3 (''/v3/tasks/'' @ py_str env task_id)]\<rparr>))
         \<and> py_or (dict_get doc ''result'' (JObj [])) (JObj []) = JObj []
         \<and> extract_urls (py_or (dict_get doc ''result'' (JObj [])) (JObj [])) =
             Inr (JNull, JNull, JNull)
         \<and> task_reply env (dict_get args ''task_id'' (JStr [])) (JObj doc) =
             task_reply env (dict_get args ''task_id'' (JStr []))
               (JObj ((''result'', JObj []) # doc))"
proof -
  have r: "py_or (dict_get doc ''result'' (JObj [])) (JObj []) = JObj []"
    using assms(4) by (auto simp: dict_get_def py_or_def)
  have wf: "wf_result []"
    by (simp add: wf_result_def dict_get_def)
  have urls: "spec_audio_url [] = JNull" "spec_video_url [] = JNull" "spec_image_url [] = JNull"
    by (simp_all add: spec_audio_url_def spec_video_url_def spec_image_url_def first_item_def
        dict_get_def py_or_def)
  have ex: "extract_urls (JObj []) = Inr (JNull, JNull, JNull)"
    using extract_urls_wf [OF wf] by (simp only: urls)
  have same: "task_summary env t (JObj doc) = task_summary env t (JObj ((''result'', JObj []) # doc))"
    for t
    using r by (simp add: task_summary_def dict_get_def py_or_def)
  have reply: "task_reply env t (JObj doc) = task_reply env t (JObj ((''result'', JObj []) # doc))"
    for t
    using assms(3) same [of t] by (simp add: task_reply_def)
  have lines: "text_result
                 (join nl
                    (spec_head_lines env task_id task_type status estimated_cost
                     @ lines_of (spec_actual_cost_line env actual_cost)
                     @ lines_of (spec_trailing_line env status JNull JNull JNull error_message))) =
               JObj [(''content'',
                      JArr [JObj [(''type'', JStr ''text''),
                                  (''text'',
                                   JStr (''Task: '' @ py_str env task_id @ [CHR 0x0A]
                   @ ''Type: '' @ py_str env task_type @ [CHR 0x0A]
                   @ ''Status: '' @ py_str env status @ [CHR 0x0A]
                   @ ''Estimated Cost: $'' @ py_str env estimated_cost
                   @ (if truthy actual_cost \<and> actual_cost \<noteq> JStr ''N/A''
                      then [CHR 0x0A] @ ''Actual Cost: $'' @ py_str env actual_cost else [])
                   @ (if status = JStr ''failed'' \<and> truthy error_message
                      then [CHR 0x0A, CHR 0x0A, CHR 0xE2, CHR 0x9D, CHR 0x8C]
                           @ '' Error: '' @ py_str env error_message
                      else if status \<in> {JStr ''pending'', JStr ''queued'', JStr ''executing''}
                      then [CHR 0x0A, CHR 0x0A, CHR 0xE2, CHR 0x8F, CHR 0xB3]
                           @ '' Task is still '' @ py_str env status
                           @ ''. Check again shortly.''
                      else [])))]])]"
    for task_id task_type status estimated_cost actual_cost error_message
    by (simp add: text_result_def text_content_def spec_head_lines_def
        spec_actual_cost_line_def spec_trailing_line_def lines_of_def first_available_def
        nl_def error_mark_def wait_mark_def)
  have main: "handle_get_task env (JObj args) w =
               (Inr (JObj [(''content'',
                      JArr [JObj [(''type'', JStr ''text''),
                                  (''text'',
                                   JStr (''Task: '' @ py_str env (dict_get args ''task_id'' (JStr [])) @ [CHR 0x0A]
                   @ ''Type: '' @ py_str env (dict_get doc ''type'' (JStr ''unknown'')) @ [CHR 0x0A]
                   @ ''Status: '' @ py_str env (dict_get doc ''status'' (JStr ''unknown'')) @ [CHR 0x0A]
                   @ ''Estimated Cost: $'' @ py_str env (dict_get doc ''estimated_cost'' (JStr ''N/A''))
                   @ (if truthy (dict_get doc ''actual_cost'' (JStr ''N/A'')) \<and> (dict_get doc ''actual_cost'' (JStr ''N/A'')) \<noteq> JStr ''N/A''
                      then [CHR 0x0A] @ ''Actual Cost: $'' @ py_str env (dict_get doc ''actual_cost'' (JStr ''N/A'')) else [])
                   @ (if (dict_get doc ''status'' (JStr ''unknown'')) = JStr ''failed'' \<and> truthy (dict_get doc ''error_message'' JNull)
                      then [CHR 0x0A, CHR 0x0A, CHR 0xE2, CHR 0x9D, CHR 0x8C]
                           @ '' Error: '' @ py_str env (dict_get doc ''error_message'' JNull)
                      else if (dict_get doc ''status'' (JStr ''unknown'')) \<in> {JStr ''pending'', JStr ''queued'', JStr ''executing''}
                      then [CHR 0x0A, CHR 0x0A, CHR 0xE2, CHR 0x8F, CHR 0xB3]
                           @ '' Task is still '' @ py_str env (dict_get doc ''status'' (JStr ''unknown''))
                           @ ''. Check again shortly.''
                      else [])))]])]),
                w\<lparr>calls := calls w
                       @ [Get_v3 (''/v3/tasks/'' @ py_str env (dict_get args ''task_id'' (JStr [])))]\<rparr>)"
    using handle_get_task_fetched [OF assms(1-3) r wf]
    by (simp only: urls lines)
  show ?thesis
    unfolding Let_def using main r ex reply by (simp only: simp_thms)
qed

theorem get_task_without_result_witness:
  "truthy (dict_get [(''task_id'', JStr ''t1'')] ''task_id'' (JStr []))
   \<and> ''error'' \<notin> set (map fst [(''type'', JStr ''video''), (''status'', JStr ''pending''),
                                 (''result'', JNull)])
   \<and> map_of [(''type'', JStr ''video''), (''status'', JStr ''pending''), (''result'', JNull)]
         ''result'' = Some JNull
   \<and> handle_get_task
        (sample_env (remote_answers
           (JObj [(''type'', JStr ''video''), (''status'', JStr ''pending''),
                  (''result'', JNull)])))
        (JObj [(''task_id'', JStr ''t1'')]) w0 =
       (Inr (JObj [(''content'',
                    JArr [JObj [(''type'', JStr ''text''),
                                (''text'',
                                 JStr (''Task: t1'' @ [CHR 0x0A] @ ''Type: video''
                                       @ [CHR 0x0A] @ ''Status: pending''
                                       @ [CHR 0x0A] @ ''Estimated Cost: $N/A''
                                       @ [CHR 0x0A, CHR 0x0A, CHR 0xE2, CHR 0x8F, CHR 0xB3]
                                       @ '' Task is still pending. Check again shortly.''))]])]),
        \<lparr>calls = [Get_v3 ''/v3/tasks/t1''], stdout = []\<rparr>)"
  using get_task_without_result
          [of "[(''task_id'', JStr ''t1'')]"
              "sample_env (remote_answers
                 (JObj [(''type'', JStr ''video''), (''status'', JStr ''pending''),
                        (''result'', JNull)]))"
              w0
              "[(''type'', JStr ''video''), (''status'', JStr ''pending''), (''result'', JNull)]"]
  by (simp add: Let_def dict_get_def sample_env_def remote_answers_def w0_def py_str_def)

section \<open>A line that cannot be decoded\<close>

text \<open>
  C8. The claim asks that every non-blank line that does not decode be answered with one
  parse error (id null, code -32700) and that the loop go on. The loop does so for a line
  on which \<^verbatim>\<open>json.loads\<close> raises \<^verbatim>\<open>JSONDecodeError\<close> (lemma
  \<open>decode_error_line_answered\<close>). A line on which \<^verbatim>\<open>json.loads\<close> raises another
  exception, as \<^verbatim>\<open>RecursionError\<close> on 100000 opening brackets, is not answered: the
  exception leaves the loop, nothing is written for the line and no later line is read.
\<close>

theorem undecodable_line_ends_loop:
  assumes "str_strip env l \<noteq> []"
    and "json_loads env (str_strip env l) = Inl e"
    and "\<not> (\<exists>m. e = JSONDecodeError m)"
  shows "run_stdio env (l # ls) w = (Some e, w)"
  using assms by (cases e) (simp_all add: Let_def)

theorem undecodable_line_ends_loop_witness:
  "str_strip (sample_env remote_down) deep_line \<noteq> []
   \<and> json_loads (sample_env remote_down) (str_strip (sample_env remote_down) deep_line) =
        Inl (RecursionError ''maximum recursion depth exceeded while decoding a JSON array'')
   \<and> run_stdio (sample_env remote_down) [deep_line, sample_dumps unknown_method_request] w0 =
        (Some (RecursionError ''maximum recursion depth exceeded while decoding a JSON array''),
         \<lparr>calls = [], stdout = []\<rparr>)"
proof -
  let ?E = "sample_env remote_down"
  let ?e = "RecursionError ''maximum recursion depth exceeded while decoding a JSON array''"
  have h1: "str_strip ?E deep_line \<noteq> []"
    by (simp add: sample_env_fields sample_strip_deep_line deep_line_nonempty)
  have h2: "json_loads ?E (str_strip ?E deep_line) = Inl ?e"
    by (simp add: sample_env_fields sample_strip_deep_line sample_loads_deep_line)
  have h3: "\<not> (\<exists>m. ?e = JSONDecodeError m)"
    by simp
  have "run_stdio ?E [deep_line, sample_dumps unknown_method_request] w0 = (Some ?e, w0)"
    using undecodable_line_ends_loop [OF h1 h2 h3] .
  with h1 h2 show ?thesis
    by (simp add: w0_def)
qed

section \<open>Requests, notifications and their responses\<close>

text \<open>
  C6. A message without an \<open>id\<close> member gets no response: the dispatcher returns no
  response envelope and leaves the state as it was, whatever the method is; when the
  method is a string (or absent) its return value is \<^verbatim>\<open>None\<close>. The line transport
  writes nothing for the line that carries such a message and, when the method is a
  string, goes on with the next line.
\<close>

theorem notification_gets_no_response:
  assumes "map_of r ''id'' = None"
  shows "(\<forall>resp. fst (process_request env (JObj r) w) \<noteq> Inr (Some resp))
         \<and> snd (process_request env (JObj r) w) = w
         \<and> (\<forall>m. dict_get r ''method'' (JStr []) = JStr m \<longrightarrow>
                process_request env (JObj r) w = (Inr None, w))
         \<and> (json_loads env (str_strip env l) = Inr (JObj r) \<longrightarrow>
              stdout (snd (run_stdio env [l] w)) = stdout w
              \<and> (\<forall>m. dict_get r ''method'' (JStr []) = JStr m \<longrightarrow>
                     run_stdio env (l # ls) w = run_stdio env ls w))"
proof -
  note n = process_request_notification [OF assms, where env = env and w = w]
  have one: "stdout (snd (run_stdio env [l] w)) = stdout w"
    if "json_loads env (str_strip env l) = Inr (JObj r)"
  proof (cases "process_request env (JObj r) w")
    case (Pair res w')
    with n(1) have "w' = w" by simp
    with Pair n(2) that show ?thesis
      by (cases res) (auto simp: Let_def split: option.splits)
  qed
  have more: "run_stdio env (l # ls) w = run_stdio env ls w"
    if "json_loads env (str_strip env l) = Inr (JObj r)"
      and "dict_get r ''method'' (JStr []) = JStr m" for m
    using that n(3) [OF that(2)] by (simp add: Let_def)
  show ?thesis
    using n(1,2) n(3) one more by blast
qed

theorem notification_gets_no_response_witness:
  "map_of [(''jsonrpc'', JStr ''2.0''), (''method'', JStr ''notifications/initialized'')] ''id''
     = None
   \<and> process_request (sample_env remote_down) initialized_notification w0 = (Inr None, w0)
   \<and> json_loads (sample_env remote_down)
         (str_strip (sample_env remote_down) (sample_dumps initialized_notification))
       = Inr initialized_notification
   \<and> run_stdio (sample_env remote_down) [sample_dumps initialized_notification] w0 = (None, w0)"
proof -
  let ?E = "sample_env remote_down"
  let ?r = "[(''jsonrpc'', JStr ''2.0''), (''method'', JStr ''notifications/initialized'')]"
  have h1: "map_of ?r ''id'' = None"
    by simp
  have h2: "json_loads ?E (str_strip ?E (sample_dumps initialized_notification)) = Inr (JObj ?r)"
    using sample_loads_initialized
    by (simp only: sample_env_fields initialized_notification_def sample_strip_object)
  have me: "dict_get ?r ''method'' (JStr []) = JStr ''notifications/initialized''"
    by (simp add: dict_get_def)
  from notification_gets_no_response
         [OF h1, where env = ?E and w = w0 and l = "sample_dumps initialized_notification"
            and ls = "[]"]
  have "process_request ?E (JObj ?r) w0 = (Inr None, w0)"
    and "run_stdio ?E [sample_dumps initialized_notification] w0 = run_stdio ?E [] w0"
    using h2 me by blast+
  then show ?thesis
    using h1 h2 by (simp add: initialized_notification_def)
qed

text \<open>
  C2, as amended. A message whose \<open>id\<close> is present and not null, with a method that can be
  looked up (any value but a list or a dictionary, so every string), gets exactly one
  response: the dispatcher returns one envelope, which has either the member \<open>result\<close> or
  the member \<open>error\<close>, never both, and carries the request's id; the line transport writes
  exactly this envelope for the line.
\<close>

theorem request_gets_one_envelope:
  assumes "dict_get r ''id'' JNull \<noteq> JNull"
    and "hashable (dict_get r ''method'' (JStr []))"
  shows "\<exists>resp w'. process_request env (JObj r) w = (Inr (Some resp), w')
            \<and> is_envelope (dict_get r ''id'' JNull) resp
            \<and> (str_strip env l \<noteq> [] \<and> json_loads env (str_strip env l) = Inr (JObj r)
                 \<longrightarrow> written env [l] w = [json_dumps env resp])"
proof -
  have "\<forall>e. lookup_handler (dict_get r ''method'' (JStr [])) \<noteq> Inl e"
    using assms(2) by (simp add: lookup_handler_hashable)
  from process_request_responds [OF assms(1) this]
  obtain resp w' where pr: "process_request env (JObj r) w = (Inr (Some resp), w')"
    and en: "is_envelope (dict_get r ''id'' JNull) resp"
    by blast
  have "written env [l] w = [json_dumps env resp]"
    if "str_strip env l \<noteq> []" "json_loads env (str_strip env l) = Inr (JObj r)"
    using run_stdio_single [OF that pr] .
  with pr en show ?thesis by blast
qed

theorem request_gets_one_envelope_witness:
  "dict_get [(''jsonrpc'', JStr ''2.0''), (''id'', JInt 7), (''method'', JStr ''foo/bar'')]
     ''id'' JNull \<noteq> JNull
   \<and> hashable (dict_get [(''jsonrpc'', JStr ''2.0''), (''id'', JInt 7), (''method'', JStr ''foo/bar'')]
                 ''method'' (JStr []))
   \<and> process_request (sample_env remote_down) unknown_method_request w0 =
       (Inr (Some (create_error (JInt 7) (- 32601) ''Method not found: foo/bar'')), w0)
   \<and> is_envelope (JInt 7) (create_error (JInt 7) (- 32601) ''Method not found: foo/bar'')
   \<and> written (sample_env remote_down) [sample_dumps unknown_method_request] w0 =
       [sample_dumps (create_error (JInt 7) (- 32601) ''Method not found: foo/bar'')]"
proof -
  let ?E = "sample_env remote_down"
  let ?r = "[(''jsonrpc'', JStr ''2.0''), (''id'', JInt 7), (''method'', JStr ''foo/bar'')]"
  have h1: "dict_get ?r ''id'' JNull \<noteq> JNull"
    by (simp add: dict_get_def)
  have h2: "hashable (dict_get ?r ''method'' (JStr []))"
    by (simp add: dict_get_def hashable_def)
  have h3: "str_strip ?E (sample_dumps unknown_method_request) \<noteq> []"
    by (simp only: sample_env_fields unknown_method_request_def sample_strip_object
        sample_dumps_object_nonempty not_False_eq_True)
  have h4: "json_loads ?E (str_strip ?E (sample_dumps unknown_method_request)) = Inr (JObj ?r)"
    using sample_loads_unknown
    by (simp only: sample_env_fields unknown_method_request_def sample_strip_object)
  have pr: "process_request ?E (JObj ?r) w0 =
              (Inr (Some (create_error (JInt 7) (- 32601) ''Method not found: foo/bar'')), w0)"
    using process_unknown_method [of remote_down w0] by (simp only: unknown_method_request_def)
  from request_gets_one_envelope
         [OF h1 h2, where env = ?E and w = w0 and l = "sample_dumps unknown_method_request"]
  obtain resp w' where "process_request ?E (JObj ?r) w0 = (Inr (Some resp), w')"
    and "is_envelope (dict_get ?r ''id'' JNull) resp"
    and "str_strip ?E (sample_dumps unknown_method_request) \<noteq> []
          \<and> json_loads ?E (str_strip ?E (sample_dumps unknown_method_request)) = Inr (JObj ?r)
         \<longrightarrow> written ?E [sample_dumps unknown_method_request] w0 = [json_dumps ?E resp]"
    by blast
  with pr h3 h4 have "is_envelope (dict_get ?r ''id'' JNull)
            (create_error (JInt 7) (- 32601) ''Method not found: foo/bar'')"
    and "written ?E [sample_dumps unknown_method_request] w0 =
           [json_dumps ?E (create_error (JInt 7) (- 32601) ''Method not found: foo/bar'')]"
    by simp_all
  then show ?thesis
    using h1 h2 pr
    by (simp add: unknown_method_request_def sample_env_fields dict_get_def)
qed

text \<open>
  The claim as stated includes a message whose \<open>id\<close> is explicitly null. The dispatcher
  reads the id with \<^verbatim>\<open>request.get("id")\<close> and takes \<^verbatim>\<open>None\<close> for a notification, so
  such a message gets no response.
\<close>

theorem null_id_gets_no_response:
  "map_of [(''jsonrpc'', JStr ''2.0''), (''id'', JNull), (''method'', JStr ''tools/list'')] ''id''
     = Some JNull
   \<and> process_request (sample_env remote_down)
       (JObj [(''jsonrpc'', JStr ''2.0''), (''id'', JNull), (''method'', JStr ''tools/list'')]) w0
     = (Inr None, w0)"
  by (simp add: process_request_dict dict_get_def)

text \<open>
  C9. A message whose \<open>params\<close> member is absent, null or any other value that Python
  takes for false is processed exactly as the same message with \<open>params\<close> set to the empty
  mapping. For a request (an id that is not null) whose method is in the table, the handler
  is called with the empty mapping, does not raise there, and its result is what the
  response wraps.
\<close>

theorem falsy_params_are_empty:
  assumes "\<not> truthy (dict_get r ''params'' JNull)"
  shows "process_request env (JObj r) w =
           process_request env (JObj ((''params'', JObj []) # r)) w
         \<and> (\<forall>m h. dict_get r ''id'' JNull \<noteq> JNull
                  \<and> dict_get r ''method'' (JStr []) = JStr m
                  \<and> map_of METHOD_HANDLERS m = Some h \<longrightarrow>
               (\<exists>result w'. h env (JObj []) w = (Inr result, w')
                   \<and> process_request env (JObj r) w =
                       (Inr (Some (wrap_result env (dict_get r ''id'' JNull) result)), w')))"
proof -
  have "\<exists>result w'. h env (JObj []) w = (Inr result, w')
          \<and> process_request env (JObj r) w =
              (Inr (Some (wrap_result env (dict_get r ''id'' JNull) result)), w')"
    if idp: "dict_get r ''id'' JNull \<noteq> JNull"
      and me: "dict_get r ''method'' (JStr []) = JStr m"
      and tb: "map_of METHOD_HANDLERS m = Some h" for m h
  proof -
    obtain result w' where h: "h env (JObj []) w = (Inr result, w')"
      using handler_empty_params [OF tb] by blast
    have pa: "py_or (dict_get r ''params'' JNull) (JObj []) = JObj []"
      using assms by (simp add: py_or_def)
    have lk: "lookup_handler (dict_get r ''method'' (JStr [])) = Inr (Some h)"
      using me tb by simp
    have "process_request env (JObj r) w =
            (Inr (Some (wrap_result env (dict_get r ''id'' JNull) result)), w')"
      unfolding process_request_dict lk pa using idp h by simp
    with h show ?thesis by blast
  qed
  with params_falsy [OF assms] show ?thesis by blast
qed

theorem falsy_params_are_empty_witness:
  "\<not> truthy (dict_get [(''id'', JInt 1), (''method'', JStr ''tools/list''), (''params'', JNull)]
               ''params'' JNull)
   \<and> process_request (sample_env (remote_answers (JObj [(''tools'', JArr [])])))
        (JObj [(''id'', JInt 1), (''method'', JStr ''tools/list''), (''params'', JNull)]) w0 =
       process_request (sample_env (remote_answers (JObj [(''tools'', JArr [])])))
        (JObj [(''params'', JObj []), (''id'', JInt 1), (''method'', JStr ''tools/list''),
               (''params'', JNull)]) w0
   \<and> process_request (sample_env (remote_answers (JObj [(''tools'', JArr [])])))
        (JObj [(''id'', JInt 1), (''method'', JStr ''tools/list''), (''params'', JNull)]) w0 =
       (Inr (Some (create_response (JInt 1) (JObj [(''tools'', JArr [])]))),
        \<lparr>calls = [Post_mcp ''/tools/list'' (JObj [])], stdout = []\<rparr>)"
proof -
  let ?E = "sample_env (remote_answers (JObj [(''tools'', JArr [])]))"
  let ?r = "[(''id'', JInt 1), (''method'', JStr ''tools/list''), (''params'', JNull)]"
  have h: "\<not> truthy (dict_get ?r ''params'' JNull)"
    by (simp add: dict_get_def)
  note t = falsy_params_are_empty [OF h, where env = ?E and w = w0]
  have hl: "handle_tools_list ?E (JObj []) w0 =
              (Inr (JObj [(''tools'', JArr [])]),
               \<lparr>calls = [Post_mcp ''/tools/list'' (JObj [])], stdout = []\<rparr>)"
    by (simp add: handle_tools_list_def make_request_def attempt_def sample_env_def
        remote_answers_def w0_def py_or_def)
  have "dict_get ?r ''id'' JNull \<noteq> JNull \<and> dict_get ?r ''method'' (JStr []) = JStr ''tools/list''
        \<and> map_of METHOD_HANDLERS ''tools/list'' = Some handle_tools_list"
    by (simp add: dict_get_def METHOD_HANDLERS_def)
  with t obtain result w' where "handle_tools_list ?E (JObj []) w0 = (Inr result, w')"
    and "process_request ?E (JObj ?r) w0 =
           (Inr (Some (wrap_result ?E (dict_get ?r ''id'' JNull) result)), w')"
    by blast
  with hl have "process_request ?E (JObj ?r) w0 =
      (Inr (Some (wrap_result ?E (JInt 1) (JObj [(''tools'', JArr [])]))),
       \<lparr>calls = [Post_mcp ''/tools/list'' (JObj [])], stdout = []\<rparr>)"
    by (simp add: dict_get_def)
  then have "process_request ?E (JObj ?r) w0 =
      (Inr (Some (create_response (JInt 1) (JObj [(''tools'', JArr [])]))),
       \<lparr>calls = [Post_mcp ''/tools/list'' (JObj [])], stdout = []\<rparr>)"
    by (simp add: wrap_result_def)
  with h t show ?thesis by blast
qed

section \<open>A failing remote call behind tools/call\<close>




end
